theory Spec2Isabelle
  imports Complex_Main "HOL-Library.Log_Nat"
begin

section \<open>Python values used by the backend\<close>

text \<open>
  A Python \<open>float\<close> is a binary64 number. Every finite one is a rational, so the
  type of the model is \<open>rat\<close>, and every result of an operation is rounded to the
  nearest binary64 number, a tie going to the even significand, as the hardware does.
  A decimal literal of the source stands for the binary64 number nearest to it:
  \<open>0.05\<close> is \<open>fl 0.05\<close>. Infinities and NaN are not modelled: no value reaches
  \<open>2 ^ 1024\<close>.
  \<open>Optional[float]\<close> is \<open>rat option\<close>, with \<open>None\<close> for Python's \<open>None\<close>.
  A \<open>dict\<close> with string keys and float values is an association list in insertion order.
  A \<open>str\<close> is a \<open>string\<close>; a character stands for a code point below 256, which
  covers the umlauts of the German keywords.
\<close>

type_synonym pyfloat = rat

text \<open>The nearest integer, a tie going to the even neighbour.\<close>

definition round_half_even :: "rat \<Rightarrow> int" where
  "round_half_even s =
     (let f = \<lfloor>s\<rfloor>; d = s - of_int f
      in if d < 1 / 2 then f
         else if 1 / 2 < d then f + 1
         else if even f then f else f + 1)"

text \<open>
  The binary exponent of a rational other than zero: \<open>2 powi lg2 x \<le> \<bar>x\<bar>\<close> and
  \<open>\<bar>x\<bar> < 2 powi (lg2 x + 1)\<close>.
\<close>

definition lg2 :: "rat \<Rightarrow> int" where
  "lg2 x = (let (p, q) = quotient_of \<bar>x\<bar>; k = bitlen p - bitlen q
            in if 2 powi k \<le> \<bar>x\<bar> then k else k - 1)"

text \<open>
  Rounding to binary64: 53 bits of significand, and below the normal range the fixed
  spacing \<open>2 powi - 1074\<close> of the subnormal numbers.
\<close>

definition fl :: "rat \<Rightarrow> pyfloat" where
  "fl x = (if x = 0 then 0
           else let e = max (lg2 x - 52) (- 1074)
                in of_int (round_half_even (x / 2 powi e)) * 2 powi e)"

definition fadd :: "pyfloat \<Rightarrow> pyfloat \<Rightarrow> pyfloat" where
  "fadd a b = fl (a + b)"

definition fsub :: "pyfloat \<Rightarrow> pyfloat \<Rightarrow> pyfloat" where
  "fsub a b = fl (a - b)"

definition fmul :: "pyfloat \<Rightarrow> pyfloat \<Rightarrow> pyfloat" where
  "fmul a b = fl (a * b)"

text \<open>
  \<open>round(x, ndigits)\<close>: the decimal with \<open>ndigits\<close> digits nearest to the exact value
  of \<open>x\<close>, a tie going to the even digit, and then the binary64 number nearest to
  that decimal.
\<close>

definition py_round :: "pyfloat \<Rightarrow> nat \<Rightarrow> pyfloat" where
  "py_round x ndigits = fl (of_int (round_half_even (x * 10 ^ ndigits)) / 10 ^ ndigits)"

text \<open>\<open>sum(xs)\<close> on floats: the additions run from the left, starting at 0.\<close>

definition py_sum :: "pyfloat list \<Rightarrow> pyfloat" where
  "py_sum xs = foldl fadd 0 xs"

text \<open>
  The expression \<open>v or d\<close> for an optional float \<open>v\<close> and a float \<open>d\<close>: \<open>None\<close> and
  \<open>0.0\<close> are both falsy.
\<close>

fun py_or :: "pyfloat option \<Rightarrow> pyfloat \<Rightarrow> pyfloat" where
  "py_or None d = d"
| "py_or (Some x) d = (if x \<noteq> 0 then x else d)"

text \<open>
  \<open>min(xs, key=k)\<close> and \<open>max(xs, key=k)\<close> on a non-empty list, given as its first
  element and the rest: the first element whose key is minimal (maximal) is returned.
\<close>

fun py_min_from :: "('a \<Rightarrow> pyfloat) \<Rightarrow> 'a \<Rightarrow> 'a list \<Rightarrow> 'a" where
  "py_min_from k best [] = best"
| "py_min_from k best (x # xs) = py_min_from k (if k x < k best then x else best) xs"

fun py_max_from :: "('a \<Rightarrow> pyfloat) \<Rightarrow> 'a \<Rightarrow> 'a list \<Rightarrow> 'a" where
  "py_max_from k best [] = best"
| "py_max_from k best (x # xs) = py_max_from k (if k best < k x then x else best) xs"

text \<open>\<open>sub in s\<close> on strings: \<open>sub\<close> occurs in \<open>s\<close> as a contiguous run.\<close>

fun starts_with :: "string \<Rightarrow> string \<Rightarrow> bool" where
  "starts_with s [] = True"
| "starts_with [] (k # ks) = False"
| "starts_with (c # s) (k # ks) = (c = k \<and> starts_with s ks)"

fun py_in :: "string \<Rightarrow> string \<Rightarrow> bool" where
  "py_in sub [] = (sub = [])"
| "py_in sub (c # s) = (starts_with (c # s) sub \<or> py_in sub s)"

text \<open>
  \<open>str.lower()\<close> on code points below 256: the letters A to Z and the upper-case
  letters of Latin-1 (0xC0 to 0xDE without the multiplication sign 0xD7) move up by 32.
\<close>

definition lower_char :: "char \<Rightarrow> char" where
  "lower_char c =
     (let n = (of_char c :: nat)
      in if (65 \<le> n \<and> n \<le> 90) \<or> (192 \<le> n \<and> n \<le> 222 \<and> n \<noteq> 215)
         then char_of (n + 32) else c)"

definition lower :: "string \<Rightarrow> string" where
  "lower s = map lower_char s"

text \<open>\<open>str.strip()\<close>: leading and trailing white space is removed.\<close>

definition is_space :: "char \<Rightarrow> bool" where
  "is_space c =
     (let n = (of_char c :: nat)
      in (9 \<le> n \<and> n \<le> 13) \<or> (28 \<le> n \<and> n \<le> 32) \<or> n = 133 \<or> n = 160)"

definition strip :: "string \<Rightarrow> string" where
  "strip s = rev (dropWhile is_space (rev (dropWhile is_space s)))"

text \<open>The exception that a handler can raise on the values of the context.\<close>

datatype py_error = TypeError

datatype http_error = HTTPException (status_code: nat) (detail: string)


section \<open>Grid data endpoints (main.py)\<close>

text \<open>
  The three readings of the SMARD client are the inputs: \<open>get_current_price()\<close> and
  \<open>get_co2_intensity()\<close> return a float or \<open>None\<close>, \<open>get_energy_mix()\<close> returns a
  dict, empty when nothing could be fetched.
\<close>

type_synonym energy_mix = "(string \<times> pyfloat) list"

definition default_mix :: energy_mix where
  "default_mix =
     [(''solar'', 42), (''wind'', 28), (''coal'', 15), (''gas'', 10), (''biomass'', 5)]"

text \<open>
  The status word of main.py as the file spells it: eight characters, the letter after
  \<open>g\<close> being the two code points 0xC3 and 0xBC.
\<close>

definition guenstig :: string where
  "guenstig = ''g'' @ [CHR 0xC3, CHR 0xBC] @ ''nstig''"

record grid_response =
  g_price :: pyfloat
  g_co2 :: pyfloat
  g_energy_mix :: energy_mix
  g_status :: string

text \<open>
  What \<open>db.add\<close> and \<open>db.commit\<close> do with the new row: the row is stored, or the
  database raises with a message.
\<close>

datatype db_outcome = Committed | Db_error string

text \<open>
  \<open>get_current_grid_data\<close>: the fallbacks, the row for the database and the response.
  The statement \<open>if not price: price = 0.28\<close> leaves in \<open>price\<close> the value of
  \<open>price or 0.28\<close>, and likewise for \<open>co2\<close>. \<open>db\<close> says what the database does with
  the row; an exception inside the \<open>try\<close> block becomes a response with status 500
  and the message of the exception. The timestamp of the response is left out.
\<close>

definition get_current_grid_data ::
  "pyfloat option \<Rightarrow> energy_mix \<Rightarrow> pyfloat option \<Rightarrow> db_outcome
     \<Rightarrow> http_error + grid_response" where
  "get_current_grid_data price0 energy_mix0 co20 db =
     (let price = py_or price0 (fl 0.28);
          energy_mix = (if energy_mix0 = [] \<or> py_sum (map snd energy_mix0) = 0
                        then default_mix else energy_mix0);
          co2 = py_or co20 320
      in case db of
           Db_error msg \<Rightarrow> Inl (HTTPException 500 msg)
         | Committed \<Rightarrow>
             Inr \<lparr>g_price = price, g_co2 = co2, g_energy_mix = energy_mix,
                  g_status = (if price < fl 0.30 then guenstig else ''normal'')\<rparr>)"

text \<open>
  \<open>get_price_forecast\<close>. The wall clock is read once per point: \<open>clock i\<close> is the
  naive \<open>datetime\<close> that \<open>datetime.utcnow()\<close> returns in iteration \<open>i\<close>, counted in
  microseconds from 1970-01-01 00:00:00, and \<open>co2_src i\<close> is what
  \<open>get_co2_intensity()\<close> returns there. \<open>forecast_time\<close> is the reading plus \<open>i\<close>
  hours; the sum raises \<open>OverflowError\<close> past the last \<open>datetime\<close>, the end of the year
  9999. \<open>stamp\<close> is \<open>int(forecast_time.timestamp() * 1000)\<close> as a function of the
  naive \<open>datetime\<close>: it depends on the time zone of the server. The field
  \<open>fp_datetime\<close> stands for the fields \<open>datetime\<close> and \<open>hour\<close>, which print
  \<open>forecast_time\<close>. An exception in the loop is caught: the response has an empty
  forecast then, and no location.
\<close>

definition max_datetime :: int where
  "max_datetime = 253402300799999999"

record forecast_point =
  fp_timestamp :: int
  fp_datetime :: int
  fp_price :: pyfloat
  fp_co2 :: pyfloat

record forecast_response =
  fr_forecast :: "forecast_point list"
  fr_hours :: int
  fr_location :: "string option"

definition variation :: "int \<Rightarrow> pyfloat" where
  "variation i =
     (let v = fmul (of_int (i mod 12 - 6)) (fl 0.01)
      in if i mod 4 = 0 then fadd v (fmul (fsub (of_int (i mod 2)) (fl 0.5)) (fl 0.03)) else v)"

definition forecast_time :: "(int \<Rightarrow> int) \<Rightarrow> int \<Rightarrow> int" where
  "forecast_time clock i = clock i + i * 3600000000"

definition forecast_entry_at ::
  "pyfloat \<Rightarrow> (int \<Rightarrow> int) \<Rightarrow> (int \<Rightarrow> int) \<Rightarrow> (int \<Rightarrow> pyfloat option) \<Rightarrow> int
     \<Rightarrow> forecast_point" where
  "forecast_entry_at current_price clock stamp co2_src i =
     \<lparr>fp_timestamp = stamp (forecast_time clock i),
      fp_datetime = forecast_time clock i,
      fp_price = py_round (fadd current_price (variation i)) 4,
      fp_co2 = py_or (co2_src i) 350\<rparr>"

definition get_price_forecast ::
  "int \<Rightarrow> string \<Rightarrow> pyfloat option \<Rightarrow> (int \<Rightarrow> int) \<Rightarrow> (int \<Rightarrow> int)
     \<Rightarrow> (int \<Rightarrow> pyfloat option) \<Rightarrow> http_error + forecast_response" where
  "get_price_forecast hours location price0 clock stamp co2_src =
     (let current_price = py_or price0 (fl 0.30)
      in if list_ex (\<lambda>i. max_datetime < forecast_time clock i) [0..hours - 1]
         then Inr \<lparr>fr_forecast = [], fr_hours = hours, fr_location = None\<rparr>
         else Inr \<lparr>fr_forecast =
                     map (forecast_entry_at current_price clock stamp co2_src) [0..hours - 1],
                   fr_hours = hours, fr_location = Some location\<rparr>)"


section \<open>Device recommendation (main.py)\<close>

text \<open>
  An entry of \<open>SMARDClient.get_price_forecast\<close> is a dict; the code reads it with
  \<open>.get(key, default)\<close>, so every key is optional here: \<open>None\<close> is an absent key.
  The empty dict \<open>{}\<close> is the entry without keys.
\<close>

record forecast_entry =
  fe_hour :: "string option"
  fe_price :: "pyfloat option"
  fe_co2 :: "pyfloat option"

definition empty_entry :: forecast_entry where
  "empty_entry = \<lparr>fe_hour = None, fe_price = None, fe_co2 = None\<rparr>"

text \<open>\<open>d.get(key, default)\<close>, given the optional value stored under the key.\<close>

fun dict_get :: "'a option \<Rightarrow> 'a \<Rightarrow> 'a" where
  "dict_get None d = d"
| "dict_get (Some v) d = v"

text \<open>\<open>min(forecast, key=lambda x: x.get("price", 999)) if forecast else {}\<close>\<close>

definition cheapest_of :: "forecast_entry list \<Rightarrow> forecast_entry" where
  "cheapest_of forecast =
     (case forecast of
        [] \<Rightarrow> empty_entry
      | x # xs \<Rightarrow> py_min_from (\<lambda>e. dict_get (fe_price e) 999) x xs)"

text \<open>\<open>min(forecast, key=lambda x: x.get("co2", 999)) if forecast else {}\<close>\<close>

definition greenest_of :: "forecast_entry list \<Rightarrow> forecast_entry" where
  "greenest_of forecast =
     (case forecast of
        [] \<Rightarrow> empty_entry
      | x # xs \<Rightarrow> py_min_from (\<lambda>e. dict_get (fe_co2 e) 999) x xs)"

record user_device =
  d_id :: int
  d_name :: string
  d_device_type :: string
  d_power_kwh :: pyfloat
  d_usage_per_week :: int
  d_flexible :: int
  d_room :: "string option"

record recommendation =
  r_device :: string
  r_recommendation :: string
  r_best_time :: string
  r_cost_now :: pyfloat
  r_cost_best :: pyfloat
  r_potential_savings :: pyfloat

text \<open>The local variables of \<open>get_device_recommendation\<close>, before rounding.\<close>

definition cost_now :: "pyfloat \<Rightarrow> user_device \<Rightarrow> pyfloat" where
  "cost_now current_price device = fmul current_price (d_power_kwh device)"

definition cost_cheapest :: "forecast_entry \<Rightarrow> user_device \<Rightarrow> pyfloat" where
  "cost_cheapest cheapest device = fmul (dict_get (fe_price cheapest) 0) (d_power_kwh device)"

definition savings :: "pyfloat \<Rightarrow> forecast_entry \<Rightarrow> user_device \<Rightarrow> pyfloat" where
  "savings current_price cheapest device =
     fsub (cost_now current_price device) (cost_cheapest cheapest device)"

text \<open>
  \<open>get_device_recommendation\<close>: \<open>db\<close> is the table of devices, \<open>forecast0\<close> and
  \<open>price0\<close> are what the SMARD client returns.
\<close>

definition get_device_recommendation ::
  "int \<Rightarrow> user_device list \<Rightarrow> forecast_entry list \<Rightarrow> pyfloat option
     \<Rightarrow> http_error + recommendation" where
  "get_device_recommendation device_id db forecast0 price0 =
     (case find (\<lambda>d. d_id d = device_id) db of
        None \<Rightarrow> Inl (HTTPException 404 ''Device not found'')
      | Some device \<Rightarrow>
          (let current_price = py_or price0 (fl 0.30);
               cheapest = cheapest_of forecast0
           in Inr \<lparr>r_device = d_name device,
                    r_recommendation =
                      (if savings current_price cheapest device < fl 0.05
                       then ''now'' else ''wait''),
                    r_best_time = dict_get (fe_hour cheapest) ''N/A'',
                    r_cost_now = py_round (cost_now current_price device) 2,
                    r_cost_best = py_round (cost_cheapest cheapest device) 2,
                    r_potential_savings =
                      py_round (savings current_price cheapest device) 2\<rparr>))"


section \<open>The assistant (services/ai_assistant.py)\<close>

record current_data =
  cur_price :: "pyfloat option"
  cur_co2 :: "pyfloat option"
  cur_mix :: energy_mix

record grid_data =
  gd_current :: current_data
  gd_average_price :: pyfloat
  gd_forecast :: "forecast_entry list"

text \<open>
  The answers are f-strings. Each constructor below is one template of the source,
  its arguments the values the template interpolates (a status word stands for the
  word and its emoji); the rendering of a float as text is not modelled.
\<close>

datatype price_status = Sehr_guenstig | Guenstig | Teuer

datatype co2_status = Sehr_sauber | Mittel | Schmutzig

datatype answer_text =
    Price_unavailable
  | Price_status price_status pyfloat
  | No_forecast
  | Cheapest_at string pyfloat
  | Expensive_at string pyfloat
  | Greenest_at string pyfloat
  | Co2_unavailable
  | Co2_status co2_status pyfloat
  | Charge_now pyfloat
  | Charge_wait string pyfloat
  | Device_wait string string pyfloat pyfloat pyfloat
  | Device_now string pyfloat
  | Apology
  | Answer string

subsection \<open>Rule-based handlers\<close>

definition get_price_info :: "grid_data \<Rightarrow> py_error + answer_text" where
  "get_price_info data =
     (let current = gd_current data; avg = gd_average_price data
      in case cur_price current of
           None \<Rightarrow> Inr Price_unavailable
         | Some price \<Rightarrow>
             if price = 0 then Inr Price_unavailable
             else if price < fmul avg (fl 0.8) then Inr (Price_status Sehr_guenstig price)
             else if price < avg then Inr (Price_status Guenstig price)
             else Inr (Price_status Teuer price))"

definition get_cheapest_time :: "grid_data \<Rightarrow> py_error + answer_text" where
  "get_cheapest_time data =
     (case gd_forecast data of
        [] \<Rightarrow> Inr No_forecast
      | x # xs \<Rightarrow>
          (let cheapest = py_min_from (\<lambda>e. dict_get (fe_price e) 999) x xs
           in Inr (Cheapest_at (dict_get (fe_hour cheapest) ''N/A'')
                     (dict_get (fe_price cheapest) 0))))"

definition get_expensive_time :: "grid_data \<Rightarrow> py_error + answer_text" where
  "get_expensive_time data =
     (case gd_forecast data of
        [] \<Rightarrow> Inr No_forecast
      | x # xs \<Rightarrow>
          (let expensive = py_max_from (\<lambda>e. dict_get (fe_price e) 0) x xs
           in Inr (Expensive_at (dict_get (fe_hour expensive) ''N/A'')
                     (dict_get (fe_price expensive) 0))))"

definition get_greenest_time :: "grid_data \<Rightarrow> py_error + answer_text" where
  "get_greenest_time data =
     (case gd_forecast data of
        [] \<Rightarrow> Inr No_forecast
      | x # xs \<Rightarrow>
          (let greenest = py_min_from (\<lambda>e. dict_get (fe_co2 e) 999) x xs
           in Inr (Greenest_at (dict_get (fe_hour greenest) ''N/A'')
                     (dict_get (fe_co2 greenest) 0))))"

definition get_co2_info :: "grid_data \<Rightarrow> py_error + answer_text" where
  "get_co2_info data =
     (case cur_co2 (gd_current data) of
        None \<Rightarrow> Inr Co2_unavailable
      | Some co2 \<Rightarrow>
          if co2 = 0 then Inr Co2_unavailable
          else if co2 < 200 then Inr (Co2_status Sehr_sauber co2)
          else if co2 < 400 then Inr (Co2_status Mittel co2)
          else Inr (Co2_status Schmutzig co2))"

text \<open>
  In the two advice handlers the price is compared or multiplied without a test:
  on \<open>None\<close> that is a \<open>TypeError\<close>.
\<close>

definition get_charging_advice :: "grid_data \<Rightarrow> py_error + answer_text" where
  "get_charging_advice data =
     (let avg = gd_average_price data;
          cheapest = cheapest_of (gd_forecast data)
      in case cur_price (gd_current data) of
           None \<Rightarrow> Inl TypeError
         | Some price \<Rightarrow>
             if price < fmul avg (fl 0.85) then Inr (Charge_now price)
             else Inr (Charge_wait (dict_get (fe_hour cheapest) ''N/A'')
                         (dict_get (fe_price cheapest) 0)))"

definition get_device_advice :: "grid_data \<Rightarrow> string \<Rightarrow> pyfloat \<Rightarrow> py_error + answer_text" where
  "get_device_advice data device power_kwh =
     (let cheapest = cheapest_of (gd_forecast data)
      in case cur_price (gd_current data) of
           None \<Rightarrow> Inl TypeError
         | Some price \<Rightarrow>
             (let cost_now = fmul price power_kwh;
                  cost_cheapest = fmul (dict_get (fe_price cheapest) 0) power_kwh;
                  savings = fsub cost_now cost_cheapest
              in if fl 0.05 < savings
                 then Inr (Device_wait device (dict_get (fe_hour cheapest) ''N/A'')
                             savings cost_now cost_cheapest)
                 else Inr (Device_now device cost_now)))"

definition get_washing_advice :: "grid_data \<Rightarrow> py_error + answer_text" where
  "get_washing_advice data = get_device_advice data ''Waschmaschine'' 2.0"

definition get_dishwasher_advice :: "grid_data \<Rightarrow> py_error + answer_text" where
  "get_dishwasher_advice data =
     get_device_advice data (''Geschirrsp'' @ [CHR 0xFC] @ ''ler'') 1.5"
subsection \<open>The rule table and the router\<close>

text \<open>
  \<open>self.rules\<close> is a dict from keyword to bound method; iterating over its items
  follows the order of insertion. A handler is named by a constructor, and
  \<open>run_handler\<close> calls it.
\<close>

datatype handler =
    Get_price_info
  | Get_cheapest_time
  | Get_expensive_time
  | Get_greenest_time
  | Get_co2_info
  | Get_charging_advice
  | Get_washing_advice
  | Get_dishwasher_advice

fun run_handler :: "handler \<Rightarrow> grid_data \<Rightarrow> py_error + answer_text" where
  "run_handler Get_price_info data = get_price_info data"
| "run_handler Get_cheapest_time data = get_cheapest_time data"
| "run_handler Get_expensive_time data = get_expensive_time data"
| "run_handler Get_greenest_time data = get_greenest_time data"
| "run_handler Get_co2_info data = get_co2_info data"
| "run_handler Get_charging_advice data = get_charging_advice data"
| "run_handler Get_washing_advice data = get_washing_advice data"
| "run_handler Get_dishwasher_advice data = get_dishwasher_advice data"

definition rules :: "(string \<times> handler) list" where
  "rules =
     [(''preis'', Get_price_info),
      (''price'', Get_price_info),
      (''g'' @ [CHR 0xFC] @ ''nstig'', Get_cheapest_time),
      (''cheap'', Get_cheapest_time),
      (''teuer'', Get_expensive_time),
      (''expensive'', Get_expensive_time),
      (''gr'' @ [CHR 0xFC] @ ''n'', Get_greenest_time),
      (''green'', Get_greenest_time),
      (''sauber'', Get_greenest_time),
      (''co2'', Get_co2_info),
      (''laden'', Get_charging_advice),
      (''charge'', Get_charging_advice),
      (''waschen'', Get_washing_advice),
      (''wash'', Get_washing_advice),
      (''sp'' @ [CHR 0xFC] @ ''len'', Get_dishwasher_advice),
      (''dishwasher'', Get_dishwasher_advice)]"

record ask_result =
  answer :: answer_text
  a_type :: string
  confidence :: string
  processing_time_ms :: int

definition instant :: "answer_text \<Rightarrow> ask_result" where
  "instant a =
     \<lparr>answer = a, a_type = ''instant'', confidence = ''high'', processing_time_ms = 0\<rparr>"

text \<open>
  The loop of \<open>ask\<close> over the rule table: the first keyword that occurs in the
  lower-cased query and whose handler returns ends the loop with an instant answer; a
  handler that raises is logged and the loop goes on. \<open>None\<close> is the loop running to
  its end.
\<close>

fun scan_rules :: "(string \<times> handler) list \<Rightarrow> string \<Rightarrow> grid_data \<Rightarrow> ask_result option" where
  "scan_rules [] query_lower data = None"
| "scan_rules ((keyword, h) # rest) query_lower data =
     (if py_in keyword query_lower
      then (case run_handler h data of
              Inr a \<Rightarrow> Some (instant a)
            | Inl e \<Rightarrow> scan_rules rest query_lower data)
      else scan_rules rest query_lower data)"

subsection \<open>The Ollama bridge\<close>

text \<open>
  What \<open>_build_prompt\<close> interpolates into its template. \<open>pr_price\<close> and \<open>pr_co2\<close>
  are the stored values, printed as \<open>None\<close> when they are \<open>None\<close>; an absent key of
  the cheapest or greenest entry is printed as \<open>N/A\<close>.
\<close>

record prompt =
  pr_price :: "pyfloat option"
  pr_co2 :: "pyfloat option"
  pr_solar :: pyfloat
  pr_wind :: pyfloat
  pr_coal :: pyfloat
  pr_cheapest_hour :: "string option"
  pr_cheapest_price :: "pyfloat option"
  pr_greenest_hour :: "string option"
  pr_greenest_co2 :: "pyfloat option"
  pr_query :: string

definition build_prompt :: "string \<Rightarrow> grid_data \<Rightarrow> py_error + prompt" where
  "build_prompt query data =
     (let current = gd_current data;
          forecast = gd_forecast data;
          cheapest = cheapest_of forecast;
          greenest = greenest_of forecast
      in Inr \<lparr>pr_price = cur_price current,
          pr_co2 = cur_co2 current,
          pr_solar = dict_get (map_of (cur_mix current) ''solar'') 0,
          pr_wind = dict_get (map_of (cur_mix current) ''wind'') 0,
          pr_coal = dict_get (map_of (cur_mix current) ''coal'') 0,
          pr_cheapest_hour = fe_hour cheapest,
          pr_cheapest_price = fe_price cheapest,
          pr_greenest_hour = fe_hour greenest,
          pr_greenest_co2 = fe_co2 greenest,
          pr_query = query\<rparr>)"

text \<open>
  The outcome of \<open>requests.post\<close>: the call raises (time-out after 10 seconds,
  connection refused, no backend), or a response arrives with a status code and a body.
  The body is what \<open>response.json()\<close> makes of it: not JSON, JSON that is no object,
  or an object with or without the key \<open>response\<close>, whose value is a string or not.
\<close>

datatype response_value = Text string | Non_text

datatype response_body = Invalid_json | Not_an_object | Object "response_value option"

datatype backend_outcome = Request_failed | Response int response_body

definition fallback_answer :: "string \<Rightarrow> ask_result" where
  "fallback_answer query =
     \<lparr>answer = Apology, a_type = ''fallback'', confidence = ''low'', processing_time_ms = 0\<rparr>"

definition generated :: "string \<Rightarrow> int \<Rightarrow> ask_result" where
  "generated text processing_time =
     \<lparr>answer = Answer (strip text), a_type = ''ai'', confidence = ''medium'',
      processing_time_ms = processing_time\<rparr>"

text \<open>
  \<open>_ask_ollama\<close>: \<open>backend\<close> is the generative backend, \<open>elapsed_ms\<close> the time in
  milliseconds between the start and the arrival of the response. The prompt is built
  before the \<open>try\<close> block, so an exception of \<open>_build_prompt\<close> would reach the caller;
  on the contexts of this model, where the mix is a dict and the forecast a list of
  dicts with float prices, it raises none. Every exception inside the \<open>try\<close> block is
  caught and answered by the fallback: a body that is not JSON, a body that has no
  \<open>get\<close>, a value that has no \<open>strip\<close>.
\<close>

definition ask_ollama ::
  "string \<Rightarrow> grid_data \<Rightarrow> (prompt \<Rightarrow> backend_outcome) \<Rightarrow> int \<Rightarrow> py_error + ask_result" where
  "ask_ollama query data backend elapsed_ms =
     (case build_prompt query data of
        Inl e \<Rightarrow> Inl e
      | Inr prompt \<Rightarrow>
          (case backend prompt of
             Request_failed \<Rightarrow> Inr (fallback_answer query)
           | Response status body \<Rightarrow>
               if status = 200
               then (case body of
                       Invalid_json \<Rightarrow> Inr (fallback_answer query)
                     | Not_an_object \<Rightarrow> Inr (fallback_answer query)
                     | Object None \<Rightarrow> Inr (generated [] elapsed_ms)
                     | Object (Some (Text t)) \<Rightarrow> Inr (generated t elapsed_ms)
                     | Object (Some Non_text) \<Rightarrow> Inr (fallback_answer query))
               else Inr (fallback_answer query)))"

definition ask ::
  "string \<Rightarrow> grid_data \<Rightarrow> (prompt \<Rightarrow> backend_outcome) \<Rightarrow> int \<Rightarrow> py_error + ask_result" where
  "ask user_query data backend elapsed_ms =
     (let query_lower = lower user_query
      in case scan_rules rules query_lower data of
           Some r \<Rightarrow> Inr r
         | None \<Rightarrow> ask_ollama user_query data backend elapsed_ms)"

text \<open>
  \<open>ask_assistant\<close> of main.py: the readings of the SMARD client go into the context
  as they are, and an exception becomes a response with status 500.
\<close>

definition assistant_context ::
  "pyfloat option \<Rightarrow> pyfloat option \<Rightarrow> energy_mix \<Rightarrow> forecast_entry list \<Rightarrow> grid_data" where
  "assistant_context current_price co2 mix forecast =
     \<lparr>gd_current = \<lparr>cur_price = current_price, cur_co2 = co2, cur_mix = mix\<rparr>,
      gd_average_price = fl 0.30,
      gd_forecast = forecast\<rparr>"

definition ask_assistant ::
  "string \<Rightarrow> pyfloat option \<Rightarrow> pyfloat option \<Rightarrow> energy_mix \<Rightarrow> forecast_entry list
     \<Rightarrow> (prompt \<Rightarrow> backend_outcome) \<Rightarrow> int \<Rightarrow> http_error + ask_result" where
  "ask_assistant query current_price co2 mix forecast backend elapsed_ms =
     (case ask query (assistant_context current_price co2 mix forecast) backend elapsed_ms of
        Inr result \<Rightarrow> Inr result
      | Inl e \<Rightarrow> Inl (HTTPException 500 []))"
section \<open>The seeded devices (models/database.py)\<close>

text \<open>
  \<open>seed_devices\<close> fills the empty table with four devices; the primary keys count
  from 1.
\<close>

definition seed_devices :: "user_device list" where
  "seed_devices =
     [\<lparr>d_id = 1, d_name = ''Waschmaschine'', d_device_type = ''appliance'',
       d_power_kwh = 2.0, d_usage_per_week = 3, d_flexible = 1, d_room = Some ''bathroom''\<rparr>,
      \<lparr>d_id = 2, d_name = ''Geschirrsp'' @ [CHR 0xFC] @ ''ler'', d_device_type = ''appliance'',
       d_power_kwh = 1.5, d_usage_per_week = 4, d_flexible = 1, d_room = Some ''kitchen''\<rparr>,
      \<lparr>d_id = 3, d_name = ''E-Auto'', d_device_type = ''vehicle'',
       d_power_kwh = 40.0, d_usage_per_week = 7, d_flexible = 1, d_room = Some ''garage''\<rparr>,
      \<lparr>d_id = 4, d_name = ''W'' @ [CHR 0xE4] @ ''rmepumpe'', d_device_type = ''appliance'',
       d_power_kwh = 8.0, d_usage_per_week = 7, d_flexible = 0, d_room = Some ''basement''\<rparr>]"


section \<open>Rounding to binary64\<close>

lemma lg2_bounds:
  assumes "x \<noteq> 0"
  shows "2 powi (lg2 x) \<le> \<bar>x\<bar> \<and> \<bar>x\<bar> < 2 powi (lg2 x + 1)"
proof -
  obtain p q where pq: "quotient_of \<bar>x\<bar> = (p, q)" by (cases "quotient_of \<bar>x\<bar>")
  have q: "0 < q" using pq by (rule quotient_of_denom_pos)
  have y: "\<bar>x\<bar> = of_int p / of_int q" using pq by (rule quotient_of_div)
  have "0 < \<bar>x\<bar>" using assms by simp
  then have p: "0 < p" using y q by (simp add: zero_less_divide_iff)
  define k where "k = bitlen p - bitlen q"
  have bp: "2 ^ nat (bitlen p - 1) \<le> p" "p < 2 ^ nat (bitlen p)"
    using bitlen_bounds [OF p] by simp_all
  have bq: "2 ^ nat (bitlen q - 1) \<le> q" "q < 2 ^ nat (bitlen q)"
    using bitlen_bounds [OF q] by simp_all
  have p1: "1 \<le> bitlen p" using p by (auto simp: bitlen_alt_def)
  have q1: "1 \<le> bitlen q" using q by (auto simp: bitlen_alt_def)
  have rp: "(2::rat) powi (bitlen p - 1) \<le> of_int p" "of_int p < (2::rat) powi (bitlen p)"
  proof -
    have "(2::rat) powi (bitlen p - 1) = of_int (2 ^ nat (bitlen p - 1))"
      using p1 by (simp add: power_int_def)
    then show "(2::rat) powi (bitlen p - 1) \<le> of_int p"
      using bp(1) by (simp only: of_int_le_iff)
    have "(2::rat) powi (bitlen p) = of_int (2 ^ nat (bitlen p))"
      using p1 by (simp add: power_int_def)
    then show "of_int p < (2::rat) powi (bitlen p)"
      using bp(2) by (simp only: of_int_less_iff)
  qed
  have rq: "(2::rat) powi (bitlen q - 1) \<le> of_int q" "of_int q < (2::rat) powi (bitlen q)"
  proof -
    have "(2::rat) powi (bitlen q - 1) = of_int (2 ^ nat (bitlen q - 1))"
      using q1 by (simp add: power_int_def)
    then show "(2::rat) powi (bitlen q - 1) \<le> of_int q"
      using bq(1) by (simp only: of_int_le_iff)
    have "(2::rat) powi (bitlen q) = of_int (2 ^ nat (bitlen q))"
      using q1 by (simp add: power_int_def)
    then show "of_int q < (2::rat) powi (bitlen q)"
      using bq(2) by (simp only: of_int_less_iff)
  qed
  have qpos: "(0::rat) < of_int q" using q by simp
  have up: "\<bar>x\<bar> < 2 powi (k + 1)"
  proof -
    have "of_int p < (2::rat) powi (k + 1) * 2 powi (bitlen q - 1)"
      using rp(2) by (simp add: k_def flip: power_int_add)
    also have "\<dots> \<le> 2 powi (k + 1) * of_int q"
      using rq(1) by (intro mult_left_mono) simp_all
    finally show ?thesis
      unfolding y using qpos by (simp add: pos_divide_less_eq)
  qed
  have low: "2 powi (k - 1) < \<bar>x\<bar>"
  proof -
    have "(2::rat) powi (k - 1) * of_int q < 2 powi (k - 1) * 2 powi (bitlen q)"
      using rq(2) by (intro mult_strict_left_mono) simp_all
    also have "\<dots> = 2 powi (bitlen p - 1)"
      by (simp add: k_def flip: power_int_add)
    also have "\<dots> \<le> of_int p" by (rule rp(1))
    finally show ?thesis
      unfolding y using qpos by (simp add: pos_less_divide_eq)
  qed
  have l: "lg2 x = (if 2 powi k \<le> \<bar>x\<bar> then k else k - 1)"
    by (simp add: lg2_def pq k_def Let_def)
  show ?thesis
  proof (cases "2 powi k \<le> \<bar>x\<bar>")
    case True
    then show ?thesis using up l by simp
  next
    case False
    then show ?thesis using low l by simp
  qed
qed

lemma lg2_unique:
  assumes "2 powi k \<le> \<bar>x\<bar>" and "\<bar>x\<bar> < 2 powi (k + 1)"
  shows "lg2 x = k"
proof -
  have "(0::rat) < 2 powi k" by simp
  then have "0 < \<bar>x\<bar>" using assms(1) by (rule less_le_trans)
  then have "x \<noteq> 0" by simp
  then have b: "2 powi (lg2 x) \<le> \<bar>x\<bar>" "\<bar>x\<bar> < 2 powi (lg2 x + 1)"
    using lg2_bounds by simp_all
  have "\<not> lg2 x + 1 \<le> k"
  proof
    assume "lg2 x + 1 \<le> k"
    then have "(2::rat) powi (lg2 x + 1) \<le> 2 powi k" by (intro power_int_increasing) simp_all
    then show False using b(2) assms(1) by simp
  qed
  moreover have "\<not> k + 1 \<le> lg2 x"
  proof
    assume "k + 1 \<le> lg2 x"
    then have "(2::rat) powi (k + 1) \<le> 2 powi (lg2 x)" by (intro power_int_increasing) simp_all
    then show False using b(1) assms(2) by simp
  qed
  ultimately show ?thesis by simp
qed

lemma round_half_even_close: "\<bar>of_int (round_half_even s) - s\<bar> \<le> 1 / 2"
proof -
  define f where "f = \<lfloor>s\<rfloor>"
  define d where "d = s - of_int f"
  have d0: "0 \<le> d" and d1: "d < 1"
    unfolding d_def f_def by linarith+
  have r: "round_half_even s =
      (if d < 1 / 2 then f else if 1 / 2 < d then f + 1 else if even f then f else f + 1)"
    by (simp add: round_half_even_def Let_def f_def d_def)
  have c: "of_int f - s = - d" "of_int (f + 1) - s = 1 - d"
    by (simp_all add: d_def)
  show ?thesis
  proof (cases "d < 1 / 2")
    case True
    then show ?thesis unfolding r using d0 c(1) by simp
  next
    case False
    note nlt = this
    show ?thesis
    proof (cases "1 / 2 < d")
      case True
      then show ?thesis unfolding r using d1 nlt c(2) by simp
    next
      case False
      then have "d = 1 / 2" using nlt by simp
      then show ?thesis unfolding r using c by (cases "even f") simp_all
    qed
  qed
qed

lemma round_half_even_of_int: "round_half_even (of_int n) = n"
  by (simp add: round_half_even_def)

lemma fl_exact:
  assumes "x = of_int m * 2 powi e" and "max (lg2 x - 52) (- 1074) \<le> e"
  shows "fl x = x"
proof (cases "x = 0")
  case True
  then show ?thesis by (simp add: fl_def)
next
  case False
  define e' where "e' = max (lg2 x - 52) (- 1074)"
  have "(2::rat) powi e = 2 powi (e - e') * 2 powi e'"
    by (simp flip: power_int_add)
  moreover have "(2::rat) powi (e - e') = of_int (2 ^ nat (e - e'))"
    using assms(2) by (simp add: e'_def power_int_def)
  ultimately have "x / 2 powi e' = of_int (m * 2 ^ nat (e - e'))"
    using assms(1) by simp
  then have "of_int (round_half_even (x / 2 powi e')) * 2 powi e' = x / 2 powi e' * 2 powi e'"
    by (simp only: round_half_even_of_int)
  then show ?thesis
    using False by (simp add: fl_def e'_def Let_def)
qed

lemma fl_scaled:
  assumes "x \<noteq> 0"
  shows "\<bar>x / 2 powi (max (lg2 x - 52) (- 1074))\<bar> < 2 ^ 53"
proof -
  define e where "e = max (lg2 x - 52) (- 1074)"
  have "\<bar>x\<bar> < 2 powi (lg2 x + 1)" using lg2_bounds [OF assms] by simp
  also have "\<dots> \<le> 2 powi (e + 53)"
    by (intro power_int_increasing) (simp_all add: e_def)
  also have "\<dots> = 2 powi e * 2 ^ 53"
    by (simp add: power_int_add)
  finally have "\<bar>x\<bar> / 2 powi e < 2 ^ 53"
    by (simp add: pos_divide_less_eq mult.commute)
  then show ?thesis by (simp add: e_def abs_divide)
qed

lemma fl_idem: "fl (fl x) = fl x"
proof (cases "x = 0")
  case True
  then show ?thesis by (simp add: fl_def)
next
  case False
  define e where "e = max (lg2 x - 52) (- 1074)"
  define s :: rat where "s = x / 2 powi e"
  define n where "n = round_half_even s"
  define y :: rat where "y = of_int n * 2 powi e"
  have y: "fl x = y"
    using False by (simp add: fl_def Let_def e_def s_def n_def y_def)
  have e: "- 1074 \<le> e" by (simp add: e_def)
  have "\<bar>s\<bar> < 2 ^ 53"
    unfolding s_def e_def using False by (rule fl_scaled)
  moreover have "\<bar>of_int n - s\<bar> \<le> 1 / 2"
    unfolding n_def by (rule round_half_even_close)
  ultimately have "\<bar>(of_int n :: rat)\<bar> < 2 ^ 53 + 1" by linarith
  then have "\<bar>(of_int n :: rat)\<bar> < of_int (2 ^ 53 + 1)" by simp
  then have "(of_int \<bar>n\<bar> :: rat) < of_int (2 ^ 53 + 1)" by (simp only: of_int_abs)
  then have "\<bar>n\<bar> < 2 ^ 53 + 1" by (simp only: of_int_less_iff)
  then have n: "\<bar>n\<bar> \<le> 2 ^ 53" by simp
  have "fl y = y"
  proof (cases "n = 0")
    case True
    then show ?thesis by (simp add: y_def fl_def)
  next
    case n0: False
    then have y0: "y \<noteq> 0" by (simp add: y_def)
    have ay: "\<bar>y\<bar> = of_int \<bar>n\<bar> * 2 powi e"
      by (simp add: y_def abs_mult)
    show ?thesis
    proof (cases "\<bar>n\<bar> = 2 ^ 53")
      case True
      have "y = of_int (n div 2) * 2 powi (e + 1)"
      proof -
        have "even n" using True by (metis even_abs_add_iff even_add even_numeral even_power zero_less_numeral)
        then have "(of_int n :: rat) = of_int (n div 2) * 2" by (auto elim: evenE)
        then show ?thesis by (simp add: y_def power_int_add)
      qed
      moreover have "max (lg2 y - 52) (- 1074) \<le> e + 1"
      proof -
        have "\<bar>y\<bar> = 2 powi (e + 53)" using ay True by (simp add: power_int_add)
        then have "lg2 y = e + 53"
          by (intro lg2_unique) (simp_all add: power_int_add)
        then show ?thesis using e by simp
      qed
      ultimately show ?thesis by (rule fl_exact)
    next
      case False
      then have "\<bar>n\<bar> < 2 ^ 53" using n by simp
      then have "(of_int \<bar>n\<bar> :: rat) < of_int (2 ^ 53)" by (simp only: of_int_less_iff)
      then have "\<bar>y\<bar> < 2 ^ 53 * 2 powi e"
        unfolding ay by (intro mult_strict_right_mono) simp_all
      then have lt: "\<bar>y\<bar> < 2 powi (e + 53)" by (simp add: power_int_add mult.commute)
      have "\<not> e + 53 \<le> lg2 y"
      proof
        assume "e + 53 \<le> lg2 y"
        then have "(2::rat) powi (e + 53) \<le> 2 powi (lg2 y)"
          by (intro power_int_increasing) simp_all
        then show False using lg2_bounds [OF y0] lt by simp
      qed
      then have "max (lg2 y - 52) (- 1074) \<le> e" using e by simp
      with y_def show ?thesis by (rule fl_exact)
    qed
  qed
  then show ?thesis by (simp add: y)
qed

lemma fl_error:
  "\<bar>fl x - x\<bar> \<le> \<bar>x\<bar> * 2 powi (- 53) + 2 powi (- 1075)"
proof (cases "x = 0")
  case True
  then show ?thesis by (simp add: fl_def)
next
  case False
  define e where "e = max (lg2 x - 52) (- 1074)"
  define s :: rat where "s = x / 2 powi e"
  have f: "fl x = of_int (round_half_even s) * 2 powi e"
    using False by (simp add: fl_def Let_def e_def s_def)
  have x: "x = s * 2 powi e" by (simp add: s_def)
  have "of_int (round_half_even s) * 2 powi e - s * 2 powi e
      = (of_int (round_half_even s) - s) * 2 powi e"
    by (simp add: algebra_simps)
  then have "fl x - x = (of_int (round_half_even s) - s) * 2 powi e"
    using f x by simp
  then have "\<bar>fl x - x\<bar> = \<bar>of_int (round_half_even s) - s\<bar> * 2 powi e"
    by (simp add: abs_mult)
  also have "\<dots> \<le> 1 / 2 * 2 powi e"
    by (intro mult_right_mono round_half_even_close) simp
  also have "\<dots> = 2 powi (e - 1)"
    by (simp add: power_int_diff)
  finally have b: "\<bar>fl x - x\<bar> \<le> 2 powi (e - 1)" .
  show ?thesis
  proof (cases "lg2 x - 52 \<le> - 1074")
    case True
    then have "e = - 1074" by (simp add: e_def)
    then have "\<bar>fl x - x\<bar> \<le> 2 powi (- 1075)" using b by simp
    moreover have "0 \<le> \<bar>x\<bar> * 2 powi (- 53)" by simp
    ultimately show ?thesis by linarith
  next
    case False
    then have "e = lg2 x - 52" by (simp add: e_def)
    then have "e - 1 = lg2 x + (- 53)" by simp
    then have "(2::rat) powi (e - 1) = 2 powi (lg2 x + (- 53))" by (simp only:)
    also have "\<dots> = 2 powi (lg2 x) * 2 powi (- 53)"
      by (rule power_int_add) simp
    also have "\<dots> \<le> \<bar>x\<bar> * 2 powi (- 53)"
      using lg2_bounds [OF \<open>x \<noteq> 0\<close>] by (intro mult_right_mono) simp_all
    finally have "\<bar>fl x - x\<bar> \<le> \<bar>x\<bar> * 2 powi (- 53)" using b by simp
    moreover have "(0::rat) \<le> 2 powi (- 1075)" by simp
    ultimately show ?thesis by linarith
  qed
qed

lemma fl_zero: "fl 0 = 0"
  by (simp add: fl_def)

lemma find_washing_machine: "find (\<lambda>d. d_id d = 1) seed_devices = Some (hd seed_devices)"
  by (simp add: seed_devices_def)


section \<open>A negative forecast horizon\<close>

text \<open>
  Claim C7 says that a negative horizon is rejected with an error. The endpoint has
  no check of \<open>hours\<close>: \<open>range(hours)\<close> is empty, and the answer for the horizon -1 is
  an ordinary response with an empty forecast.
\<close>

theorem negative_horizon_counterexample:
  "get_price_forecast (- 1) ''Berlin'' (Some (fl 0.30)) (\<lambda>i. 0) (\<lambda>t. t div 1000) (\<lambda>i. None) =
     Inr \<lparr>fr_forecast = [], fr_hours = - 1, fr_location = Some ''Berlin''\<rparr>"
  by (simp add: get_price_forecast_def)

text \<open>
  Claim C7 as amended: for every negative horizon the forecast operation returns an
  ordinary response, with the empty sequence as forecast and the horizon and the
  location as given; it raises no error.
\<close>

theorem negative_horizon_empty:
  "hours < 0 \<Longrightarrow>
   get_price_forecast hours location price_in clock stamp co2_src =
     Inr \<lparr>fr_forecast = [], fr_hours = hours, fr_location = Some location\<rparr>"
  by (simp add: get_price_forecast_def)

theorem negative_horizon_empty_witness:
  "(- 24 :: int) < 0
   \<and> get_price_forecast (- 24) ''Berlin'' None (\<lambda>i. 1000 * i) (\<lambda>t. t div 1000)
        (\<lambda>i. Some 300) =
     Inr \<lparr>fr_forecast = [], fr_hours = - 24, fr_location = Some ''Berlin''\<rparr>"
proof -
  have h: "(- 24 :: int) < 0" by simp
  show ?thesis
    using h negative_horizon_empty [OF h, of "''Berlin''" None "\<lambda>i. 1000 * i"
        "\<lambda>t. t div 1000" "\<lambda>i. Some 300"]
    by simp
qed


section \<open>The rule router\<close>

lemma starts_with_iff: "starts_with s sub \<longleftrightarrow> (\<exists>ss. s = sub @ ss)"
  by (induction s sub rule: starts_with.induct) auto

lemma py_in_iff: "py_in sub s \<longleftrightarrow> (\<exists>ps ss. s = ps @ sub @ ss)"
proof (induction s)
  case Nil
  then show ?case by auto
next
  case (Cons c s)
  show ?case
  proof
    assume "py_in sub (c # s)"
    then consider "starts_with (c # s) sub" | "py_in sub s" by auto
    then show "\<exists>ps ss. c # s = ps @ sub @ ss"
    proof cases
      case 1
      then obtain ss where "c # s = sub @ ss" by (auto simp add: starts_with_iff)
      then have "c # s = [] @ sub @ ss" by simp
      then show ?thesis by blast
    next
      case 2
      then obtain ps ss where "s = ps @ sub @ ss" using Cons.IH by blast
      then have "c # s = (c # ps) @ sub @ ss" by simp
      then show ?thesis by blast
    qed
  next
    assume "\<exists>ps ss. c # s = ps @ sub @ ss"
    then obtain ps ss where e: "c # s = ps @ sub @ ss" by blast
    show "py_in sub (c # s)"
    proof (cases ps)
      case Nil
      then have "starts_with (c # s) sub" using e by (auto simp add: starts_with_iff)
      then show ?thesis by simp
    next
      case (Cons p ps')
      then have "s = ps' @ sub @ ss" using e by simp
      then have "py_in sub s" using Cons.IH by blast
      then show ?thesis by simp
    qed
  qed
qed

lemma scan_rules_skip:
  "\<forall>kh\<in>set pre. \<not> py_in (fst kh) query_lower \<Longrightarrow>
   scan_rules (pre @ rest) query_lower data = scan_rules rest query_lower data"
  by (induction pre) auto

lemma scan_rules_no_match:
  "\<forall>kh\<in>set rs. \<not> py_in (fst kh) query_lower \<Longrightarrow> scan_rules rs query_lower data = None"
  by (induction rs) auto

lemma scan_rules_answers:
  assumes "\<forall>kh\<in>set rs. \<exists>a. run_handler (snd kh) data = Inr a"
    and "\<exists>kh\<in>set rs. py_in (fst kh) query_lower"
  shows "\<exists>a. scan_rules (rs @ rest) query_lower data = Some (instant a)"
  using assms
proof (induction rs)
  case Nil
  then show ?case by simp
next
  case (Cons kh rs)
  obtain k h where kh: "kh = (k, h)" by (cases kh)
  obtain a where a: "run_handler h data = Inr a"
    using Cons.prems(1) kh by auto
  show ?case
  proof (cases "py_in k query_lower")
    case True
    then have "scan_rules ((kh # rs) @ rest) query_lower data = Some (instant a)"
      using a kh by simp
    then show ?thesis by blast
  next
    case False
    then have "\<exists>kh\<in>set rs. py_in (fst kh) query_lower"
      using Cons.prems(2) kh by auto
    then have "\<exists>a. scan_rules (rs @ rest) query_lower data = Some (instant a)"
      using Cons.IH Cons.prems(1) by simp
    then show ?thesis using False kh by simp
  qed
qed

lemma ask_first_match:
  assumes "rules = pre @ (keyword, h) # rest"
    and "\<forall>kh\<in>set pre. \<not> py_in (fst kh) (lower user_query)"
    and "py_in keyword (lower user_query)"
  shows "ask user_query data backend elapsed_ms =
        (case run_handler h data of
           Inr a \<Rightarrow> Inr (instant a)
         | Inl e \<Rightarrow>
             (case scan_rules rest (lower user_query) data of
                Some r \<Rightarrow> Inr r
              | None \<Rightarrow> ask_ollama user_query data backend elapsed_ms))"
proof -
  have "scan_rules rules (lower user_query) data =
      scan_rules ((keyword, h) # rest) (lower user_query) data"
    unfolding assms(1) using assms(2) by (rule scan_rules_skip)
  then show ?thesis
    using assms(3) by (simp add: ask_def split: sum.splits)
qed

lemma ask_no_match:
  assumes "\<forall>kh\<in>set rules. \<not> py_in (fst kh) (lower user_query)"
  shows "ask user_query data backend elapsed_ms =
      ask_ollama user_query data backend elapsed_ms"
proof -
  have "scan_rules rules (lower user_query) data = None"
    using assms by (rule scan_rules_no_match)
  then show ?thesis by (simp add: ask_def)
qed

text \<open>
  Claim C8: the keyword that decides is the first one, in the order of the rule table,
  that occurs in the lower-cased query, wherever it stands in the query. The handler of
  that keyword is called on the context; when it returns, its answer is the instant
  answer of the query, and when it raises, the scan goes on with the keywords after
  it. When no keyword of the table occurs in the query, the query goes to the
  generative bridge.
\<close>

theorem router_priority:
  "(\<forall>pre keyword h rest.
      rules = pre @ (keyword, h) # rest
      \<and> (\<forall>kh\<in>set pre. \<not> py_in (fst kh) (lower user_query))
      \<and> py_in keyword (lower user_query) \<longrightarrow>
      ask user_query data backend elapsed_ms =
        (case run_handler h data of
           Inr a \<Rightarrow> Inr (instant a)
         | Inl e \<Rightarrow>
             (case scan_rules rest (lower user_query) data of
                Some r \<Rightarrow> Inr r
              | None \<Rightarrow> ask_ollama user_query data backend elapsed_ms)))
   \<and> ((\<forall>kh\<in>set rules. \<not> py_in (fst kh) (lower user_query)) \<longrightarrow>
        ask user_query data backend elapsed_ms =
          ask_ollama user_query data backend elapsed_ms)"
proof (intro conjI allI impI; (elim conjE)?)
  fix pre keyword h rest
  assume "rules = pre @ (keyword, h) # rest"
    and "\<forall>kh\<in>set pre. \<not> py_in (fst kh) (lower user_query)"
    and "py_in keyword (lower user_query)"
  then show "ask user_query data backend elapsed_ms =
        (case run_handler h data of
           Inr a \<Rightarrow> Inr (instant a)
         | Inl e \<Rightarrow>
             (case scan_rules rest (lower user_query) data of
                Some r \<Rightarrow> Inr r
              | None \<Rightarrow> ask_ollama user_query data backend elapsed_ms))"
    by (rule ask_first_match)
next
  assume "\<forall>kh\<in>set rules. \<not> py_in (fst kh) (lower user_query)"
  then show "ask user_query data backend elapsed_ms =
      ask_ollama user_query data backend elapsed_ms"
    by (rule ask_no_match)
qed

theorem router_priority_witness:
  "ask ''Charge when the PRICE is cheap?'' (assistant_context (Some 0.25) (Some 300) [] [])
       (\<lambda>p. Request_failed) 0
     = Inr (instant (Price_status Guenstig 0.25))
   \<and> ask ''Hallo'' (assistant_context (Some 0.25) (Some 300) [] []) (\<lambda>p. Request_failed) 0
     = Inr (fallback_answer ''Hallo'')"
proof -
  let ?data = "assistant_context (Some 0.25) (Some 300) [] []"
  let ?q = "''Charge when the PRICE is cheap?''"
  have lq: "lower ?q = ''charge when the price is cheap?''" by code_simp
  have split: "rules = [(''preis'', Get_price_info)] @ (''price'', Get_price_info) # tl (tl rules)"
    by (simp add: rules_def)
  have no: "\<forall>kh\<in>set [(''preis'', Get_price_info)]. \<not> py_in (fst kh) (lower ?q)"
    unfolding lq by simp
  have yes: "py_in ''price'' (lower ?q)"
    unfolding lq by simp
  have run: "run_handler Get_price_info ?data = Inr (Price_status Guenstig 0.25)"
    by code_simp
  have c: "rules = [(''preis'', Get_price_info)] @ (''price'', Get_price_info) # tl (tl rules)
      \<and> (\<forall>kh\<in>set [(''preis'', Get_price_info)]. \<not> py_in (fst kh) (lower ?q))
      \<and> py_in ''price'' (lower ?q)"
    using split no yes by blast
  have "ask ?q ?data (\<lambda>p. Request_failed) 0 =
      (case run_handler Get_price_info ?data of
         Inr a \<Rightarrow> Inr (instant a)
       | Inl e \<Rightarrow>
           (case scan_rules (tl (tl rules)) (lower ?q) ?data of
              Some r \<Rightarrow> Inr r
            | None \<Rightarrow> ask_ollama ?q ?data (\<lambda>p. Request_failed) 0))"
    by (rule router_priority [THEN conjunct1, rule_format, OF c])
  then have a: "ask ?q ?data (\<lambda>p. Request_failed) 0 = Inr (instant (Price_status Guenstig 0.25))"
    unfolding run by simp
  have none: "\<forall>kh\<in>set rules. \<not> py_in (fst kh) (lower ''Hallo'')"
    by code_simp
  have b: "ask ''Hallo'' ?data (\<lambda>p. Request_failed) 0 = Inr (fallback_answer ''Hallo'')"
    using router_priority [of "''Hallo''" ?data "\<lambda>p. Request_failed" 0, THEN conjunct2] none
    by (simp add: ask_ollama_def build_prompt_def Let_def)
  show ?thesis using a b by (rule conjI)
qed
section \<open>Answers without current data\<close>

lemma first_ten_rules_return:
  "\<forall>kh\<in>set (take 10 rules). \<exists>a. run_handler (snd kh) data = Inr a"
proof -
  have p: "\<exists>a. get_price_info data = Inr a"
    by (simp add: get_price_info_def Let_def split: option.splits)
  have c: "\<exists>a. get_cheapest_time data = Inr a"
    by (simp add: get_cheapest_time_def Let_def split: list.splits)
  have e: "\<exists>a. get_expensive_time data = Inr a"
    by (simp add: get_expensive_time_def Let_def split: list.splits)
  have g: "\<exists>a. get_greenest_time data = Inr a"
    by (simp add: get_greenest_time_def Let_def split: list.splits)
  have o: "\<exists>a. get_co2_info data = Inr a"
    by (simp add: get_co2_info_def split: option.splits)
  show ?thesis
    using p c e g o by (simp add: rules_def)
qed

text \<open>
  Claim C10: when the current price in the context is null or zero, the price handler
  returns the fixed message that no price data is available, and a query with the
  keyword \<open>preis\<close> or \<open>price\<close> gets it as an instant answer. When the current CO2 value
  is null or zero, the CO2 handler returns the fixed message that no CO2 data is
  available; a query with the keyword \<open>co2\<close> gets an instant answer, and it is this
  message when none of the nine keywords before \<open>co2\<close> occurs in the query.
\<close>

theorem unavailable_answers:
  "(cur_price (gd_current data) = None \<or> cur_price (gd_current data) = Some 0 \<longrightarrow>
      get_price_info data = Inr Price_unavailable
      \<and> (py_in ''preis'' (lower user_query) \<or> py_in ''price'' (lower user_query) \<longrightarrow>
           ask user_query data backend elapsed_ms = Inr (instant Price_unavailable)))
   \<and> (cur_co2 (gd_current data) = None \<or> cur_co2 (gd_current data) = Some 0 \<longrightarrow>
      get_co2_info data = Inr Co2_unavailable
      \<and> (py_in ''co2'' (lower user_query) \<longrightarrow>
           (\<exists>a. ask user_query data backend elapsed_ms = Inr (instant a)))
      \<and> (py_in ''co2'' (lower user_query)
           \<and> (\<forall>kh\<in>set (take 9 rules). \<not> py_in (fst kh) (lower user_query)) \<longrightarrow>
           ask user_query data backend elapsed_ms = Inr (instant Co2_unavailable)))"
proof (intro conjI impI)
  assume n: "cur_price (gd_current data) = None \<or> cur_price (gd_current data) = Some 0"
  then show h: "get_price_info data = Inr Price_unavailable"
    by (auto simp add: get_price_info_def Let_def)
  assume k: "py_in ''preis'' (lower user_query) \<or> py_in ''price'' (lower user_query)"
  show "ask user_query data backend elapsed_ms = Inr (instant Price_unavailable)"
  proof (cases "py_in ''preis'' (lower user_query)")
    case True
    have r: "rules = [] @ (''preis'', Get_price_info) # tl rules"
      by (simp add: rules_def)
    have e: "\<forall>kh\<in>set ([] :: (string \<times> handler) list). \<not> py_in (fst kh) (lower user_query)"
      by simp
    have "ask user_query data backend elapsed_ms =
        (case run_handler Get_price_info data of
           Inr a \<Rightarrow> Inr (instant a)
         | Inl e \<Rightarrow>
             (case scan_rules (tl rules) (lower user_query) data of
                Some r \<Rightarrow> Inr r
              | None \<Rightarrow> ask_ollama user_query data backend elapsed_ms))"
      using r e True by (rule ask_first_match)
    then show ?thesis by (simp add: h)
  next
    case False
    then have p: "py_in ''price'' (lower user_query)" using k by simp
    have r: "rules = [(''preis'', Get_price_info)] @ (''price'', Get_price_info) # tl (tl rules)"
      by (simp add: rules_def)
    have e: "\<forall>kh\<in>set [(''preis'', Get_price_info)]. \<not> py_in (fst kh) (lower user_query)"
      using False by simp
    have "ask user_query data backend elapsed_ms =
        (case run_handler Get_price_info data of
           Inr a \<Rightarrow> Inr (instant a)
         | Inl e \<Rightarrow>
             (case scan_rules (tl (tl rules)) (lower user_query) data of
                Some r \<Rightarrow> Inr r
              | None \<Rightarrow> ask_ollama user_query data backend elapsed_ms))"
      using r e p by (rule ask_first_match)
    then show ?thesis by (simp add: h)
  qed
next
  assume n: "cur_co2 (gd_current data) = None \<or> cur_co2 (gd_current data) = Some 0"
  then show h: "get_co2_info data = Inr Co2_unavailable"
    by (auto simp add: get_co2_info_def)
  {
    assume k: "py_in ''co2'' (lower user_query)"
    have "(''co2'', Get_co2_info) \<in> set (take 10 rules)"
      by (simp add: rules_def)
    then have "\<exists>kh\<in>set (take 10 rules). py_in (fst kh) (lower user_query)"
      using k by force
    then have "\<exists>a. scan_rules (take 10 rules @ drop 10 rules) (lower user_query) data
        = Some (instant a)"
      using first_ten_rules_return by (intro scan_rules_answers) simp_all
    then show "\<exists>a. ask user_query data backend elapsed_ms = Inr (instant a)"
      by (auto simp add: ask_def)
  }
  {
    assume "py_in ''co2'' (lower user_query)
        \<and> (\<forall>kh\<in>set (take 9 rules). \<not> py_in (fst kh) (lower user_query))"
    then have k: "py_in ''co2'' (lower user_query)"
      and e: "\<forall>kh\<in>set (take 9 rules). \<not> py_in (fst kh) (lower user_query)"
      by simp_all
    have "rules = take 9 rules @ (''co2'', Get_co2_info) # drop 10 rules"
      by (simp add: rules_def)
    then have "ask user_query data backend elapsed_ms =
        (case run_handler Get_co2_info data of
           Inr a \<Rightarrow> Inr (instant a)
         | Inl e \<Rightarrow>
             (case scan_rules (drop 10 rules) (lower user_query) data of
                Some r \<Rightarrow> Inr r
              | None \<Rightarrow> ask_ollama user_query data backend elapsed_ms))"
      using e k by (rule ask_first_match)
    then show "ask user_query data backend elapsed_ms = Inr (instant Co2_unavailable)"
      by (simp add: h)
  }
qed

theorem unavailable_answers_witness:
  "get_price_info (assistant_context None (Some 0) [] []) = Inr Price_unavailable
   \<and> ask ''Wie ist der Preis?'' (assistant_context None (Some 0) [] []) (\<lambda>p. Request_failed) 0
       = Inr (instant Price_unavailable)
   \<and> get_co2_info (assistant_context None (Some 0) [] []) = Inr Co2_unavailable
   \<and> ask ''Wie hoch ist der CO2-Wert?'' (assistant_context None (Some 0) [] [])
         (\<lambda>p. Request_failed) 0
       = Inr (instant Co2_unavailable)"
proof -
  let ?data = "assistant_context None (Some 0) [] []"
  let ?be = "\<lambda>p :: prompt. Request_failed"
  have np: "cur_price (gd_current ?data) = None \<or> cur_price (gd_current ?data) = Some 0"
    by (simp add: assistant_context_def)
  have nc: "cur_co2 (gd_current ?data) = None \<or> cur_co2 (gd_current ?data) = Some 0"
    by (simp add: assistant_context_def)
  have kp: "py_in ''preis'' (lower ''Wie ist der Preis?'')
      \<or> py_in ''price'' (lower ''Wie ist der Preis?'')"
    by code_simp
  have kc: "py_in ''co2'' (lower ''Wie hoch ist der CO2-Wert?'')
      \<and> (\<forall>kh\<in>set (take 9 rules). \<not> py_in (fst kh) (lower ''Wie hoch ist der CO2-Wert?''))"
    by code_simp
  note p = unavailable_answers [of ?data "''Wie ist der Preis?''" ?be 0,
      THEN conjunct1, rule_format, OF np]
  note c = unavailable_answers [of ?data "''Wie hoch ist der CO2-Wert?''" ?be 0,
      THEN conjunct2, rule_format, OF nc]
  have "get_price_info ?data = Inr Price_unavailable"
    using p by (rule conjunct1)
  moreover have "ask ''Wie ist der Preis?'' ?data ?be 0 = Inr (instant Price_unavailable)"
    using p [THEN conjunct2] kp by blast
  moreover have "get_co2_info ?data = Inr Co2_unavailable"
    using c by (rule conjunct1)
  moreover have "ask ''Wie hoch ist der CO2-Wert?'' ?data ?be 0 = Inr (instant Co2_unavailable)"
    using c [THEN conjunct2, THEN conjunct2] kc by blast
  ultimately show ?thesis by blast
qed


section \<open>The cheapest slot and the decision\<close>

lemma py_min_from_first:
  "\<exists>pre post. best # xs = pre @ py_min_from k best xs # post
     \<and> (\<forall>y\<in>set pre. k (py_min_from k best xs) < k y)
     \<and> (\<forall>y\<in>set post. k (py_min_from k best xs) \<le> k y)"
proof (induction xs arbitrary: best)
  case Nil
  have "[best] = [] @ py_min_from k best [] # []" by simp
  then show ?case by fastforce
next
  case (Cons x xs)
  define b where "b = (if k x < k best then x else best)"
  define m where "m = py_min_from k b xs"
  have m: "py_min_from k best (x # xs) = m" by (simp add: m_def b_def)
  obtain pre post where d: "b # xs = pre @ m # post"
    and lt: "\<forall>y\<in>set pre. k m < k y"
    and le: "\<forall>y\<in>set post. k m \<le> k y"
    unfolding m_def using Cons.IH [of b] by blast
  show ?case
  proof (cases "k x < k best")
    case True
    then have d': "x # xs = pre @ m # post" using d by (simp add: b_def)
    have "k m \<le> k x"
    proof (cases pre)
      case Nil
      then have "m = x" using d' by simp
      then show ?thesis by simp
    next
      case (Cons p ps)
      then have "x \<in> set pre" using d' by simp
      then have "k m < k x" using lt by blast
      then show ?thesis by simp
    qed
    then have "k m < k best" using True by simp
    then have "\<forall>y\<in>set (best # pre). k m < k y" using lt by simp
    moreover have "best # x # xs = (best # pre) @ m # post" using d' by simp
    ultimately show ?thesis unfolding m using le by blast
  next
    case False
    then have d': "best # xs = pre @ m # post" using d by (simp add: b_def)
    show ?thesis
    proof (cases pre)
      case Nil
      then have e: "m = best" "post = xs" using d' by simp_all
      have "k best \<le> k x" using False by simp
      then have "\<forall>y\<in>set (x # xs). k m \<le> k y" using le e by simp
      moreover have "best # x # xs = [] @ m # (x # xs)" using e by simp
      moreover have "\<forall>y\<in>set []. k m < k y" by simp
      ultimately show ?thesis unfolding m by blast
    next
      case (Cons p ps)
      then have e: "p = best" "xs = ps @ m # post" using d' by simp_all
      have "k m < k best" using lt Cons e by simp
      then have "k m < k x" using False by simp
      then have "\<forall>y\<in>set (best # x # ps). k m < k y" using lt Cons e by simp
      moreover have "best # x # xs = (best # x # ps) @ m # post" using e by simp
      ultimately show ?thesis unfolding m using le by blast
    qed
  qed
qed

lemma cheapest_of_first_minimum:
  assumes "forecast \<noteq> []"
  shows "\<exists>pre post. forecast = pre @ cheapest_of forecast # post
     \<and> (\<forall>e\<in>set pre. dict_get (fe_price (cheapest_of forecast)) 999 < dict_get (fe_price e) 999)
     \<and> (\<forall>e\<in>set post. dict_get (fe_price (cheapest_of forecast)) 999 \<le> dict_get (fe_price e) 999)"
proof -
  obtain x xs where f: "forecast = x # xs" using assms by (cases forecast) auto
  have c: "cheapest_of forecast = py_min_from (\<lambda>e. dict_get (fe_price e) 999) x xs"
    by (simp add: f cheapest_of_def)
  show ?thesis
    unfolding c unfolding f
    using py_min_from_first [of x xs "\<lambda>e. dict_get (fe_price e) 999"] by simp
qed

text \<open>
  The recommendation endpoint does what claim C4 says: on a non-empty forecast it
  takes the first entry of minimal price, the savings are the cost now minus the cost
  at that entry, each computed in binary64, and the recommendation is \<open>now\<close> exactly
  when the savings are below 0.05.
\<close>

lemma recommendation_decision:
  assumes "find (\<lambda>d. d_id d = device_id) db = Some device"
    and "forecast \<noteq> []"
  shows "\<exists>r pre post. get_device_recommendation device_id db forecast price_in = Inr r
     \<and> forecast = pre @ cheapest_of forecast # post
     \<and> (\<forall>e\<in>set pre. dict_get (fe_price (cheapest_of forecast)) 999 < dict_get (fe_price e) 999)
     \<and> (\<forall>e\<in>set post. dict_get (fe_price (cheapest_of forecast)) 999 \<le> dict_get (fe_price e) 999)
     \<and> r_best_time r = dict_get (fe_hour (cheapest_of forecast)) ''N/A''
     \<and> savings (py_or price_in (fl 0.30)) (cheapest_of forecast) device =
         fsub (fmul (py_or price_in (fl 0.30)) (d_power_kwh device))
           (fmul (dict_get (fe_price (cheapest_of forecast)) 0) (d_power_kwh device))
     \<and> (r_recommendation r = ''now'' \<longleftrightarrow>
          savings (py_or price_in (fl 0.30)) (cheapest_of forecast) device < fl 0.05)
     \<and> (r_recommendation r = ''wait'' \<longleftrightarrow>
          \<not> savings (py_or price_in (fl 0.30)) (cheapest_of forecast) device < fl 0.05)"
proof -
  obtain pre post where "forecast = pre @ cheapest_of forecast # post"
    and "\<forall>e\<in>set pre. dict_get (fe_price (cheapest_of forecast)) 999 < dict_get (fe_price e) 999"
    and "\<forall>e\<in>set post. dict_get (fe_price (cheapest_of forecast)) 999 \<le> dict_get (fe_price e) 999"
    using cheapest_of_first_minimum [OF assms(2)] by blast
  moreover have "get_device_recommendation device_id db forecast price_in =
      Inr \<lparr>r_device = d_name device,
           r_recommendation =
             (if savings (py_or price_in (fl 0.30)) (cheapest_of forecast) device < fl 0.05
              then ''now'' else ''wait''),
           r_best_time = dict_get (fe_hour (cheapest_of forecast)) ''N/A'',
           r_cost_now = py_round (cost_now (py_or price_in (fl 0.30)) device) 2,
           r_cost_best = py_round (cost_cheapest (cheapest_of forecast) device) 2,
           r_potential_savings =
             py_round (savings (py_or price_in (fl 0.30)) (cheapest_of forecast) device) 2\<rparr>"
    using assms(1) by (simp add: get_device_recommendation_def Let_def)
  moreover have "savings (py_or price_in (fl 0.30)) (cheapest_of forecast) device =
         fsub (fmul (py_or price_in (fl 0.30)) (d_power_kwh device))
           (fmul (dict_get (fe_price (cheapest_of forecast)) 0) (d_power_kwh device))"
    by (simp add: savings_def cost_now_def cost_cheapest_def)
  ultimately show ?thesis by fastforce
qed

text \<open>
  The device handlers of the assistant decide on the same savings with
  \<open>savings > 0.05\<close>: they advise to wait only when the savings exceed 0.05.
\<close>

lemma device_advice_decision:
  assumes "cur_price (gd_current data) = Some price"
  shows "(\<exists>c. get_device_advice data device power_kwh = Inr (Device_now device c)) \<longleftrightarrow>
     fsub (fmul price power_kwh)
         (fmul (dict_get (fe_price (cheapest_of (gd_forecast data))) 0) power_kwh)
       \<le> fl 0.05"
  using assms by (simp add: get_device_advice_def Let_def)

text \<open>
  Claim C4 at the savings of exactly 0.05: the current price is 0.025, the forecast
  holds an entry with the price 0 and then the current price, and the washing machine
  draws 2 kWh. The savings are 0.05, which is not below 0.05. The recommendation
  endpoint answers \<open>wait\<close>, as the claim says; the washing handler of the assistant
  answers that the machine can run now.
\<close>

theorem device_advice_boundary:
  "savings (fl 0.025) \<lparr>fe_hour = Some ''03:00'', fe_price = Some 0, fe_co2 = None\<rparr> (hd seed_devices)
     = fl 0.05
   \<and> get_device_recommendation 1 seed_devices
       [\<lparr>fe_hour = Some ''03:00'', fe_price = Some 0, fe_co2 = None\<rparr>,
        \<lparr>fe_hour = Some ''14:00'', fe_price = Some (fl 0.025), fe_co2 = None\<rparr>] (Some (fl 0.025))
     = Inr \<lparr>r_device = ''Waschmaschine'', r_recommendation = ''wait'', r_best_time = ''03:00'',
            r_cost_now = fl 0.05, r_cost_best = 0, r_potential_savings = fl 0.05\<rparr>
   \<and> get_washing_advice (assistant_context (Some (fl 0.025)) (Some 300) []
       [\<lparr>fe_hour = Some ''03:00'', fe_price = Some 0, fe_co2 = None\<rparr>,
        \<lparr>fe_hour = Some ''14:00'', fe_price = Some (fl 0.025), fe_co2 = None\<rparr>])
     = Inr (Device_now ''Waschmaschine'' (fl 0.05))
   \<and> ask ''Soll ich jetzt waschen?'' (assistant_context (Some (fl 0.025)) (Some 300) []
       [\<lparr>fe_hour = Some ''03:00'', fe_price = Some 0, fe_co2 = None\<rparr>,
        \<lparr>fe_hour = Some ''14:00'', fe_price = Some (fl 0.025), fe_co2 = None\<rparr>])
       (\<lambda>p. Request_failed) 0
     = Inr (instant (Device_now ''Waschmaschine'' (fl 0.05)))"
  by code_simp


section \<open>The context of the assistant\<close>

text \<open>
  Claim C1 with nothing available upstream: the price and the CO2 value are null, the
  mix and the forecast are empty. \<open>ask_assistant\<close> hands the null price on, and the
  handlers behind \<open>laden\<close> and \<open>waschen\<close>, which read the price with the numeric
  default 0, raise \<open>TypeError\<close> on it; the query about charging gets the apology of the
  bridge instead of an instant answer. On the same readings the grid snapshot
  substitutes 0.28, 320 and the default mix.
\<close>

theorem assistant_null_context:
  "cur_price (gd_current (assistant_context None None [] [])) = None
   \<and> cur_co2 (gd_current (assistant_context None None [] [])) = None
   \<and> cur_mix (gd_current (assistant_context None None [] [])) = []
   \<and> get_charging_advice (assistant_context None None [] []) = Inl TypeError
   \<and> get_washing_advice (assistant_context None None [] []) = Inl TypeError
   \<and> ask_assistant ''Soll ich jetzt laden?'' None None [] [] (\<lambda>p. Request_failed) 0
       = Inr (fallback_answer ''Soll ich jetzt laden?'')
   \<and> get_current_grid_data None [] None Committed
       = Inr \<lparr>g_price = fl 0.28, g_co2 = 320, g_energy_mix = default_mix, g_status = guenstig\<rparr>"
  by code_simp


section \<open>The default price\<close>

lemma py_or_same: "d \<noteq> 0 \<Longrightarrow> py_or (Some d) d = py_or None d"
  by simp

text \<open>
  Claim C2 says that a null current price is replaced by 0.28 in the grid snapshot, in
  the forecast and in the device recommendation alike. The forecast and the
  recommendation use 0.30 instead: with a null price the first forecast point costs
  round(0.30 - 0.075, 4) = 0.225 where 0.28 would give 0.205, and one cycle of the
  2 kWh washing machine costs 0.60 now where 0.28 would give 0.56.
\<close>

theorem null_price_default_counterexample:
  "get_price_forecast 1 ''Berlin'' None (\<lambda>i. 0) (\<lambda>t. t div 1000) (\<lambda>i. None) =
     Inr \<lparr>fr_forecast =
            [\<lparr>fp_timestamp = 0, fp_datetime = 0, fp_price = fl 0.225, fp_co2 = 350\<rparr>],
          fr_hours = 1, fr_location = Some ''Berlin''\<rparr>
   \<and> py_round (fadd (fl 0.28) (variation 0)) 4 = fl 0.205
   \<and> fl 0.225 \<noteq> fl 0.205
   \<and> get_device_recommendation 1 seed_devices [] None =
     Inr \<lparr>r_device = ''Waschmaschine'', r_recommendation = ''wait'', r_best_time = ''N/A'',
          r_cost_now = fl 0.6, r_cost_best = 0, r_potential_savings = fl 0.6\<rparr>
   \<and> py_round (fmul (fl 0.28) 2.0) 2 = fl 0.56
   \<and> fl 0.6 \<noteq> fl 0.56"
  by code_simp

text \<open>
  Claim C2 as amended: when the current price read from upstream is null, the grid
  snapshot takes 0.28, while the forecast and the device recommendation are computed
  as for the upstream price 0.30; the cost now of the recommendation is 0.30 times the
  energy per use of the device.
\<close>

theorem null_price_defaults:
  "(\<forall>r. get_current_grid_data None mix_in co2_in db_in = Inr r \<longrightarrow> g_price r = fl 0.28)
   \<and> get_price_forecast hours location None clock stamp co2_src =
       get_price_forecast hours location (Some (fl 0.30)) clock stamp co2_src
   \<and> get_device_recommendation device_id db forecast None =
       get_device_recommendation device_id db forecast (Some (fl 0.30))
   \<and> (\<forall>device. find (\<lambda>d. d_id d = device_id) db = Some device \<longrightarrow>
        (\<exists>r. get_device_recommendation device_id db forecast None = Inr r
           \<and> r_cost_now r = py_round (fmul (fl 0.30) (d_power_kwh device)) 2))"
proof -
  have n: "fl 0.30 \<noteq> 0" by code_simp
  have e: "py_or (Some (fl 0.30)) (fl 0.30) = py_or None (fl 0.30)"
    using n by (rule py_or_same)
  have c1: "\<forall>r. get_current_grid_data None mix_in co2_in db_in = Inr r \<longrightarrow> g_price r = fl 0.28"
    by (auto simp add: get_current_grid_data_def Let_def split: db_outcome.splits)
  have c2: "get_price_forecast hours location None clock stamp co2_src =
       get_price_forecast hours location (Some (fl 0.30)) clock stamp co2_src"
    unfolding get_price_forecast_def e by (rule refl)
  have c3: "get_device_recommendation device_id db forecast None =
       get_device_recommendation device_id db forecast (Some (fl 0.30))"
    unfolding get_device_recommendation_def e by (rule refl)
  have c4: "\<forall>device. find (\<lambda>d. d_id d = device_id) db = Some device \<longrightarrow>
        (\<exists>r. get_device_recommendation device_id db forecast None = Inr r
           \<and> r_cost_now r = py_round (fmul (fl 0.30) (d_power_kwh device)) 2)"
    by (simp add: get_device_recommendation_def Let_def cost_now_def)
  show ?thesis using c1 c2 c3 c4 by blast
qed

theorem null_price_defaults_witness:
  "(\<exists>r. get_current_grid_data None [] None Committed = Inr r \<and> g_price r = fl 0.28)
   \<and> (\<exists>r. get_device_recommendation 1 seed_devices [] None = Inr r \<and> r_cost_now r = fl 0.6)"
proof -
  have a: "get_current_grid_data None [] None Committed
      = Inr \<lparr>g_price = fl 0.28, g_co2 = 320, g_energy_mix = default_mix, g_status = guenstig\<rparr>"
    by code_simp
  have c: "py_round (fmul (fl 0.30) (d_power_kwh (hd seed_devices))) 2 = fl 0.6"
    by code_simp
  note t = null_price_defaults [where mix_in = "[]" and co2_in = None and db_in = Committed
      and device_id = 1 and db = seed_devices and forecast = "[]"]
  have "g_price \<lparr>g_price = fl 0.28, g_co2 = 320, g_energy_mix = default_mix,
      g_status = guenstig\<rparr> = fl 0.28"
    using t [THEN conjunct1, rule_format, OF a] .
  then have "\<exists>r. get_current_grid_data None [] None Committed = Inr r \<and> g_price r = fl 0.28"
    using a by blast
  moreover have "\<exists>r. get_device_recommendation 1 seed_devices [] None = Inr r
      \<and> r_cost_now r = fl 0.6"
    using t [THEN conjunct2, THEN conjunct2, THEN conjunct2, rule_format,
        OF find_washing_machine] c
    by auto
  ultimately show ?thesis by (rule conjI)
qed


section \<open>The fallback policy of the grid snapshot\<close>

text \<open>
  Claim C5 says that the snapshot equals the input on every fully populated input:
  a price and a CO2 value that are not null and an energy mix with a positive sum.
  The test \<open>if not price\<close> also holds for the price 0.0, which is not null: here the
  input price 0 comes back as 0.28 and the input CO2 value 0 as 320, with a mix that
  sums to 100.
\<close>

theorem fallback_identity_counterexample:
  "0 < py_sum (map snd [(''solar'', 60 :: pyfloat), (''wind'', 40)])
   \<and> get_current_grid_data (Some 0) [(''solar'', 60), (''wind'', 40)] (Some 0) Committed =
       Inr \<lparr>g_price = fl 0.28, g_co2 = 320, g_energy_mix = [(''solar'', 60), (''wind'', 40)],
            g_status = guenstig\<rparr>
   \<and> fl 0.28 \<noteq> 0 \<and> (320 :: pyfloat) \<noteq> 0"
  by code_simp

text \<open>
  Claim C5 as amended: in every snapshot that the operation returns, field by field,
  a price that is neither null nor zero, a CO2 value that is neither null nor zero and
  a mix that is not empty and does not sum to zero are the input unchanged; a null or
  zero price becomes 0.28, a null or zero CO2 value becomes 320, an empty or zero-sum
  mix becomes the default mix.
\<close>

theorem fallback_policy_fieldwise:
  "\<forall>r. get_current_grid_data price_in mix_in co2_in db_in = Inr r \<longrightarrow>
       (\<forall>p. price_in = Some p \<and> p \<noteq> 0 \<longrightarrow> g_price r = p)
     \<and> (price_in = None \<or> price_in = Some 0 \<longrightarrow> g_price r = fl 0.28)
     \<and> (\<forall>c. co2_in = Some c \<and> c \<noteq> 0 \<longrightarrow> g_co2 r = c)
     \<and> (co2_in = None \<or> co2_in = Some 0 \<longrightarrow> g_co2 r = 320)
     \<and> (mix_in \<noteq> [] \<and> py_sum (map snd mix_in) \<noteq> 0 \<longrightarrow> g_energy_mix r = mix_in)
     \<and> (mix_in = [] \<or> py_sum (map snd mix_in) = 0 \<longrightarrow> g_energy_mix r = default_mix)"
  by (auto simp add: get_current_grid_data_def Let_def split: db_outcome.splits)

theorem fallback_policy_fieldwise_witness:
  "(\<exists>r. get_current_grid_data (Some 0.25) [(''solar'', 60), (''wind'', 40)] (Some 150) Committed
        = Inr r
      \<and> g_price r = 0.25 \<and> g_co2 r = 150 \<and> g_energy_mix r = [(''solar'', 60), (''wind'', 40)])
   \<and> (\<exists>r. get_current_grid_data None [] None Committed = Inr r
      \<and> g_price r = fl 0.28 \<and> g_co2 r = 320 \<and> g_energy_mix r = default_mix)"
proof
  let ?mix = "[(''solar'', 60 :: pyfloat), (''wind'', 40)]"
  have s: "py_sum (map snd ?mix) \<noteq> 0" by code_simp
  obtain r where a: "get_current_grid_data (Some 0.25) ?mix (Some 150) Committed = Inr r"
    by (simp add: get_current_grid_data_def Let_def)
  note t = fallback_policy_fieldwise [where price_in = "Some 0.25" and mix_in = ?mix
      and co2_in = "Some 150" and db_in = Committed, rule_format, OF a]
  have "g_price r = 0.25"
    using t [THEN conjunct1, rule_format, of "0.25"] by simp
  moreover have "g_co2 r = 150"
    using t [THEN conjunct2, THEN conjunct2, THEN conjunct1, rule_format, of 150] by simp
  moreover have "g_energy_mix r = ?mix"
    using t [THEN conjunct2, THEN conjunct2, THEN conjunct2, THEN conjunct2, THEN conjunct1] s
    by simp
  ultimately show "\<exists>r. get_current_grid_data (Some 0.25) ?mix (Some 150) Committed = Inr r
      \<and> g_price r = 0.25 \<and> g_co2 r = 150 \<and> g_energy_mix r = ?mix"
    using a by blast
  obtain r' where b: "get_current_grid_data None [] None Committed = Inr r'"
    by (simp add: get_current_grid_data_def Let_def)
  note u = fallback_policy_fieldwise [where price_in = None and mix_in = "[]"
      and co2_in = None and db_in = Committed, rule_format, OF b]
  have "g_price r' = fl 0.28" using u [THEN conjunct2, THEN conjunct1] by simp
  moreover have "g_co2 r' = 320"
    using u [THEN conjunct2, THEN conjunct2, THEN conjunct2, THEN conjunct1] by simp
  moreover have "g_energy_mix r' = default_mix"
    using u [THEN conjunct2, THEN conjunct2, THEN conjunct2, THEN conjunct2, THEN conjunct2]
    by simp
  ultimately show "\<exists>r. get_current_grid_data None [] None Committed = Inr r
      \<and> g_price r = fl 0.28 \<and> g_co2 r = 320 \<and> g_energy_mix r = default_mix"
    using b by blast
qed


section \<open>Recommendation on an empty forecast\<close>

text \<open>
  Claim C9: for every device of the table and every current price, when the
  forecast is empty the cost at the best time is 0 and the savings are exactly the
  cost now, the current price times the energy per use of the device. The current price
  is the value of \<open>current_price\<close>, the upstream price or 0.30, and the product is
  the binary64 one. In the response the cost at the best time is 0 and the potential
  savings are the cost now, both rounded to two digits.
\<close>

theorem empty_forecast_savings:
  assumes "find (\<lambda>d. d_id d = device_id) db = Some device"
  shows "cost_cheapest (cheapest_of []) device = 0
     \<and> savings (py_or price_in (fl 0.30)) (cheapest_of []) device
         = cost_now (py_or price_in (fl 0.30)) device
     \<and> cost_now (py_or price_in (fl 0.30)) device
         = fmul (py_or price_in (fl 0.30)) (d_power_kwh device)
     \<and> (\<exists>r. get_device_recommendation device_id db [] price_in = Inr r
          \<and> r_device r = d_name device
          \<and> r_best_time r = ''N/A''
          \<and> r_cost_best r = 0
          \<and> r_cost_now r = py_round (fmul (py_or price_in (fl 0.30)) (d_power_kwh device)) 2
          \<and> r_potential_savings r = r_cost_now r)"
proof -
  have c: "cost_cheapest (cheapest_of []) device = 0"
    by (simp add: cost_cheapest_def cheapest_of_def empty_entry_def fmul_def fl_zero)
  have s: "savings cp (cheapest_of []) device = cost_now cp device" for cp
    by (simp add: savings_def c fsub_def cost_now_def fmul_def fl_idem)
  have z: "py_round 0 2 = 0"
    by (simp add: py_round_def round_half_even_def fl_zero)
  show ?thesis
    using assms
    by (simp add: get_device_recommendation_def Let_def c s z)
      (simp add: cost_now_def cheapest_of_def empty_entry_def)
qed

theorem empty_forecast_savings_witness:
  "find (\<lambda>d. d_id d = 2) seed_devices = Some (seed_devices ! 1)
   \<and> savings (fl 0.29) (cheapest_of []) (seed_devices ! 1) = fmul (fl 0.29) 1.5
   \<and> (\<exists>r. get_device_recommendation 2 seed_devices [] (Some (fl 0.29)) = Inr r
        \<and> r_cost_best r = 0 \<and> r_cost_now r = fl 0.43 \<and> r_potential_savings r = fl 0.43)"
proof -
  have f: "find (\<lambda>d. d_id d = 2) seed_devices = Some (seed_devices ! 1)"
    by (simp add: seed_devices_def)
  have p: "py_or (Some (fl 0.29)) (fl 0.30) = fl 0.29" by code_simp
  have w: "d_power_kwh (seed_devices ! 1) = 1.5" by (simp add: seed_devices_def)
  have r: "py_round (fmul (fl 0.29) 1.5) 2 = fl 0.43" by code_simp
  note t = empty_forecast_savings [OF f, where price_in = "Some (fl 0.29)"]
  have "savings (fl 0.29) (cheapest_of []) (seed_devices ! 1) = fmul (fl 0.29) 1.5"
    using t [THEN conjunct2, THEN conjunct1] t [THEN conjunct2, THEN conjunct2, THEN conjunct1]
    unfolding p w by simp
  moreover have "\<exists>r. get_device_recommendation 2 seed_devices [] (Some (fl 0.29)) = Inr r
        \<and> r_cost_best r = 0 \<and> r_cost_now r = fl 0.43 \<and> r_potential_savings r = fl 0.43"
    using t [THEN conjunct2, THEN conjunct2, THEN conjunct2]
    unfolding p w r by auto
  ultimately show ?thesis using f by blast
qed


section \<open>The generative bridge\<close>

text \<open>
  Claim C3 says that a successful call yields the type \<open>generated\<close>. The type that
  \<open>_ask_ollama\<close> returns on success is \<open>ai\<close>.
\<close>

theorem ollama_type_counterexample:
  "ask_ollama ''Hallo'' (assistant_context None None [] [])
       (\<lambda>p. Response 200 (Object (Some (Text ''Guten Tag'')))) 1234
     = Inr \<lparr>answer = Answer ''Guten Tag'', a_type = ''ai'', confidence = ''medium'',
            processing_time_ms = 1234\<rparr>
   \<and> ''ai'' \<noteq> ''generated''"
  by code_simp

text \<open>
  Claim C3 as amended: for every query that reaches the bridge, the backend is called
  on the prompt built from the query and the context. The call succeeds when the
  response has status 200 and its body is a JSON object in which the entry
  \<open>response\<close> is a string or is absent: the result then has the type \<open>ai\<close> and the
  confidence \<open>medium\<close> with the elapsed time, the answer being the stripped string
  (empty when the entry is absent). On every failure (the request raises, as on a
  time-out, a network error or an absent backend; a status other than 200; a body that
  is not JSON or not an object; an entry \<open>response\<close> that is not a string, such as
  null) the result is the fixed apology with the type \<open>fallback\<close>, the confidence
  \<open>low\<close> and the latency 0. No error reaches the caller.
\<close>

theorem ollama_bridge_results:
  "\<exists>p. build_prompt query data = Inr p
     \<and> (\<forall>t. backend p = Response 200 (Object (Some (Text t))) \<longrightarrow>
          ask_ollama query data backend elapsed_ms =
            Inr \<lparr>answer = Answer (strip t), a_type = ''ai'', confidence = ''medium'',
                 processing_time_ms = elapsed_ms\<rparr>)
     \<and> (backend p = Response 200 (Object None) \<longrightarrow>
          ask_ollama query data backend elapsed_ms =
            Inr \<lparr>answer = Answer [], a_type = ''ai'', confidence = ''medium'',
                 processing_time_ms = elapsed_ms\<rparr>)
     \<and> (backend p = Request_failed
           \<or> (\<exists>status body. backend p = Response status body \<and> status \<noteq> 200)
           \<or> backend p = Response 200 Invalid_json
           \<or> backend p = Response 200 Not_an_object
           \<or> backend p = Response 200 (Object (Some Non_text)) \<longrightarrow>
          ask_ollama query data backend elapsed_ms =
            Inr \<lparr>answer = Apology, a_type = ''fallback'', confidence = ''low'',
                 processing_time_ms = 0\<rparr>)
     \<and> (\<forall>e. ask_ollama query data backend elapsed_ms \<noteq> Inl e)"
proof -
  have s: "strip [] = []" by (simp add: strip_def)
  obtain p where p: "build_prompt query data = Inr p"
    by (simp add: build_prompt_def Let_def)
  have "(\<forall>t. backend p = Response 200 (Object (Some (Text t))) \<longrightarrow>
          ask_ollama query data backend elapsed_ms =
            Inr \<lparr>answer = Answer (strip t), a_type = ''ai'', confidence = ''medium'',
                 processing_time_ms = elapsed_ms\<rparr>)
     \<and> (backend p = Response 200 (Object None) \<longrightarrow>
          ask_ollama query data backend elapsed_ms =
            Inr \<lparr>answer = Answer [], a_type = ''ai'', confidence = ''medium'',
                 processing_time_ms = elapsed_ms\<rparr>)
     \<and> (backend p = Request_failed
           \<or> (\<exists>status body. backend p = Response status body \<and> status \<noteq> 200)
           \<or> backend p = Response 200 Invalid_json
           \<or> backend p = Response 200 Not_an_object
           \<or> backend p = Response 200 (Object (Some Non_text)) \<longrightarrow>
          ask_ollama query data backend elapsed_ms =
            Inr \<lparr>answer = Apology, a_type = ''fallback'', confidence = ''low'',
                 processing_time_ms = 0\<rparr>)
     \<and> (\<forall>e. ask_ollama query data backend elapsed_ms \<noteq> Inl e)"
    by (auto simp add: ask_ollama_def p generated_def fallback_answer_def s
        split: backend_outcome.splits response_body.splits option.splits response_value.splits)
  then show ?thesis using p by blast
qed

theorem ollama_bridge_results_witness:
  "ask_ollama ''Hallo'' (assistant_context None None [] [])
       (\<lambda>p. Response 200 (Object (Some (Text ''  Guten Tag '')))) 1234
     = Inr \<lparr>answer = Answer ''Guten Tag'', a_type = ''ai'', confidence = ''medium'',
            processing_time_ms = 1234\<rparr>
   \<and> ask_ollama ''Hallo'' (assistant_context None None [] []) (\<lambda>p. Response 200 (Object None)) 7
     = Inr \<lparr>answer = Answer [], a_type = ''ai'', confidence = ''medium'',
            processing_time_ms = 7\<rparr>
   \<and> ask_ollama ''Hallo'' (assistant_context None None [] []) (\<lambda>p. Request_failed) 10000
     = Inr \<lparr>answer = Apology, a_type = ''fallback'', confidence = ''low'',
            processing_time_ms = 0\<rparr>
   \<and> ask_ollama ''Hallo'' (assistant_context None None [] [])
       (\<lambda>p. Response 200 (Object (Some Non_text))) 20
     = Inr \<lparr>answer = Apology, a_type = ''fallback'', confidence = ''low'',
            processing_time_ms = 0\<rparr>"
proof -
  let ?data = "assistant_context None None [] []"
  have st: "strip ''  Guten Tag '' = ''Guten Tag''" by code_simp
  have a: "ask_ollama ''Hallo'' ?data (\<lambda>p. Response 200 (Object (Some (Text ''  Guten Tag '')))) 1234
     = Inr \<lparr>answer = Answer ''Guten Tag'', a_type = ''ai'', confidence = ''medium'',
            processing_time_ms = 1234\<rparr>"
    using ollama_bridge_results [of "''Hallo''" ?data
        "\<lambda>p. Response 200 (Object (Some (Text ''  Guten Tag '')))" 1234]
    by (auto simp add: st)
  have b: "ask_ollama ''Hallo'' ?data (\<lambda>p. Response 200 (Object None)) 7
     = Inr \<lparr>answer = Answer [], a_type = ''ai'', confidence = ''medium'',
            processing_time_ms = 7\<rparr>"
    using ollama_bridge_results [of "''Hallo''" ?data "\<lambda>p. Response 200 (Object None)" 7]
    by auto
  have c: "ask_ollama ''Hallo'' ?data (\<lambda>p. Request_failed) 10000
     = Inr \<lparr>answer = Apology, a_type = ''fallback'', confidence = ''low'',
            processing_time_ms = 0\<rparr>"
    using ollama_bridge_results [of "''Hallo''" ?data "\<lambda>p. Request_failed" 10000]
    by auto
  have d: "ask_ollama ''Hallo'' ?data (\<lambda>p. Response 200 (Object (Some Non_text))) 20
     = Inr \<lparr>answer = Apology, a_type = ''fallback'', confidence = ''low'',
            processing_time_ms = 0\<rparr>"
    using ollama_bridge_results [of "''Hallo''" ?data
        "\<lambda>p. Response 200 (Object (Some Non_text))" 20]
    by auto
  show ?thesis using a b c d by blast
qed


section \<open>The forecast synthesizer\<close>

lemma variation_mod: "variation i = variation (i mod 12)"
proof -
  have a: "i mod 12 mod 4 = i mod 4" by (rule mod_mod_cancel) simp
  have b: "i mod 12 mod 2 = i mod 2" by (rule mod_mod_cancel) simp
  show ?thesis unfolding variation_def a b mod_mod_trivial by (rule refl)
qed

lemma variation_values: "list_all (\<lambda>k. \<bar>variation k\<bar> \<le> 76 / 1000) [0..11]"
  by code_simp

lemma variation_bound: "\<bar>variation i\<bar> \<le> 76 / 1000"
proof -
  have "0 \<le> i mod 12" "i mod 12 \<le> 11" by simp_all
  then have "i mod 12 \<in> set [0..11]" by simp
  then have "\<bar>variation (i mod 12)\<bar> \<le> 76 / 1000"
    using variation_values unfolding list_all_iff by blast
  then show ?thesis using variation_mod [of i] by simp
qed

lemma fl_error_small:
  assumes "\<bar>x\<bar> \<le> 1002"
  shows "\<bar>fl x - x\<bar> \<le> 1 / 10 ^ 12"
proof -
  have "(2::rat) powi (- 1075) \<le> 2 powi (- 53)"
    by (intro power_int_increasing) simp_all
  moreover have "\<bar>x\<bar> * 2 powi (- 53) \<le> 1002 * 2 powi (- 53)"
    using assms by (intro mult_right_mono) simp_all
  ultimately have "\<bar>fl x - x\<bar> \<le> 1003 * 2 powi (- 53)"
    using fl_error [of x] by linarith
  also have "\<dots> \<le> 1 / 10 ^ 12" by (simp add: power_int_minus field_simps)
  finally show ?thesis .
qed

lemma price_within:
  assumes "\<bar>p\<bar> \<le> 1000"
  shows "\<bar>py_round (fadd p (variation i)) 4 - p\<bar> \<le> 9 / 100"
proof -
  define v where "v = variation i"
  define s where "s = fadd p v"
  define d :: rat where "d = of_int (round_half_even (s * 10 ^ 4)) / 10 ^ 4"
  have v: "\<bar>v\<bar> \<le> 76 / 1000" unfolding v_def by (rule variation_bound)
  have "\<bar>p + v\<bar> \<le> 1002" using assms v by linarith
  then have s: "\<bar>s - (p + v)\<bar> \<le> 1 / 10 ^ 12"
    unfolding s_def fadd_def by (rule fl_error_small)
  have e: "d - s = (of_int (round_half_even (s * 10 ^ 4)) - s * 10 ^ 4) / 10 ^ 4"
    by (simp add: d_def diff_divide_distrib)
  have "\<bar>d - s\<bar> = \<bar>of_int (round_half_even (s * 10 ^ 4)) - s * 10 ^ 4\<bar> / \<bar>10 ^ 4\<bar>"
    unfolding e by (rule abs_divide)
  also have "\<dots> = \<bar>of_int (round_half_even (s * 10 ^ 4)) - s * 10 ^ 4\<bar> / 10 ^ 4"
    by simp
  also have "\<dots> \<le> (1 / 2) / 10 ^ 4"
    by (rule divide_right_mono [OF round_half_even_close]) simp
  finally have d: "\<bar>d - s\<bar> \<le> 1 / 20000" by simp
  have s': "\<bar>s - (p + v)\<bar> \<le> 1 / 1000000000000" using s by simp
  have "\<bar>d\<bar> \<le> 1002" using d s' v assms by linarith
  then have "\<bar>fl d - d\<bar> \<le> 1 / 10 ^ 12" by (rule fl_error_small)
  then have f: "\<bar>fl d - d\<bar> \<le> 1 / 1000000000000" by simp
  have "py_round (fadd p (variation i)) 4 = fl d"
    by (simp add: py_round_def d_def s_def v_def)
  moreover have "\<bar>fl d - p\<bar> \<le> 9 / 100" using f d s' v by linarith
  ultimately show ?thesis by simp
qed


lemma forecast_no_overflow:
  assumes "\<forall>i. 0 \<le> i \<and> i < hours \<longrightarrow> forecast_time clock i \<le> max_datetime"
  shows "get_price_forecast hours location price_in clock stamp co2_src =
      Inr \<lparr>fr_forecast =
             map (forecast_entry_at (py_or price_in (fl 0.30)) clock stamp co2_src)
               [0..hours - 1],
           fr_hours = hours, fr_location = Some location\<rparr>"
proof -
  have "\<not> list_ex (\<lambda>i. max_datetime < forecast_time clock i) [0..hours - 1]"
    unfolding list_ex_iff using assms by fastforce
  then show ?thesis by (simp only: get_price_forecast_def Let_def if_False)
qed

lemma forecast_overflow:
  assumes "0 \<le> i" and "i < hours" and "max_datetime < forecast_time clock i"
  shows "get_price_forecast hours location price_in clock stamp co2_src =
      Inr \<lparr>fr_forecast = [], fr_hours = hours, fr_location = None\<rparr>"
proof -
  have "i \<in> set [0..hours - 1]" using assms(1,2) by simp
  then have "list_ex (\<lambda>i. max_datetime < forecast_time clock i) [0..hours - 1]"
    unfolding list_ex_iff using assms(3) by blast
  then show ?thesis by (simp only: get_price_forecast_def Let_def if_True)
qed

lemma forecast_nth:
  assumes "0 \<le> i" and "i < hours"
  shows "map f [0..hours - 1] ! nat i = f i"
proof -
  have "nat i < length [0..hours - 1]" using assms by simp
  moreover have "[0..hours - 1] ! nat i = i" using assms by (simp add: nth_upto)
  ultimately show ?thesis by simp
qed

text \<open>
  Claim C6 says that the timestamps increase by exactly one hour from now, and that
  there are exactly n points and prices within 0.09 of p for every n and p. The clock
  is read anew for every point: with readings a quarter of a second apart the second
  timestamp is 3600250 ms after the first. A horizon of 100000000 hours passes the
  year 9999, the loop raises and the forecast is empty. At the price 2 ^ 50 the
  binary64 numbers are an eighth apart and the first price is an eighth below p.
\<close>

theorem forecast_spacing_counterexample:
  "get_price_forecast 2 ''Berlin'' (Some (fl 0.30)) (\<lambda>i. 1700000000000000 + 250000 * i)
       (\<lambda>t. t div 1000) (\<lambda>i. None) =
     Inr \<lparr>fr_forecast =
            [\<lparr>fp_timestamp = 1700000000000, fp_datetime = 1700000000000000,
              fp_price = fl 0.225, fp_co2 = 350\<rparr>,
             \<lparr>fp_timestamp = 1700003600250, fp_datetime = 1700003600250000,
              fp_price = 0.25, fp_co2 = 350\<rparr>],
          fr_hours = 2, fr_location = Some ''Berlin''\<rparr>
   \<and> (1700003600250 - 1700000000000 :: int) \<noteq> 3600000
   \<and> get_price_forecast 100000000 ''Berlin'' (Some (fl 0.30)) (\<lambda>i. 1700000000000000)
       (\<lambda>t. t div 1000) (\<lambda>i. None) =
     Inr \<lparr>fr_forecast = [], fr_hours = 100000000, fr_location = None\<rparr>
   \<and> py_round (fadd (2 ^ 50) (variation 0)) 4 = 2 ^ 50 - 1 / 8
   \<and> \<not> \<bar>2 ^ 50 - 1 / 8 - 2 ^ 50 :: rat\<bar> \<le> 0.09"
proof -
  have a: "get_price_forecast 2 ''Berlin'' (Some (fl 0.30)) (\<lambda>i. 1700000000000000 + 250000 * i)
       (\<lambda>t. t div 1000) (\<lambda>i. None) =
     Inr \<lparr>fr_forecast =
            [\<lparr>fp_timestamp = 1700000000000, fp_datetime = 1700000000000000,
              fp_price = fl 0.225, fp_co2 = 350\<rparr>,
             \<lparr>fp_timestamp = 1700003600250, fp_datetime = 1700003600250000,
              fp_price = 0.25, fp_co2 = 350\<rparr>],
          fr_hours = 2, fr_location = Some ''Berlin''\<rparr>"
    by code_simp
  have b: "(1700003600250 - 1700000000000 :: int) \<noteq> 3600000" by simp
  have "max_datetime < forecast_time (\<lambda>i. 1700000000000000) 99999999"
    by (simp add: max_datetime_def forecast_time_def)
  then have c: "get_price_forecast 100000000 ''Berlin'' (Some (fl 0.30))
       (\<lambda>i. 1700000000000000) (\<lambda>t. t div 1000) (\<lambda>i. None) =
     Inr \<lparr>fr_forecast = [], fr_hours = 100000000, fr_location = None\<rparr>"
    by (intro forecast_overflow [of 99999999]) simp_all
  have d: "py_round (fadd (2 ^ 50) (variation 0)) 4 = 2 ^ 50 - 1 / 8" by code_simp
  have e: "\<not> \<bar>2 ^ 50 - 1 / 8 - 2 ^ 50 :: rat\<bar> \<le> 0.09" by simp
  show ?thesis using a b c d e by blast
qed


text \<open>
  Claim C6 as amended: for every current price \<open>p\<close> (the value of \<open>current_price\<close>,
  the upstream price or 0.30) and every horizon \<open>hours \<ge> 0\<close> whose forecast times stay
  within the year 9999, the forecast has exactly \<open>hours\<close> points and is empty for the
  horizon 0. The price of point \<open>i\<close> is
  round(p + v, 4) in binary64, where v is (i mod 12 - 6) * 0.01, with
  (i mod 2 - 0.5) * 0.03 added when i mod 4 = 0; it lies within 0.09 of \<open>p\<close> when
  \<open>p\<close> is at most 1000 in absolute value, and with \<open>p = 0.30\<close> the first price is
  0.225. The time of point \<open>i\<close> is the clock reading of iteration \<open>i\<close> plus \<open>i\<close>
  hours, so the time of the next point is later by one hour and the time between the
  two readings; the timestamp is that time in milliseconds as the time zone of the
  server converts it.
\<close>

theorem forecast_synthesizer:
  assumes "0 \<le> hours"
    and "\<forall>i. 0 \<le> i \<and> i < hours \<longrightarrow> forecast_time clock i \<le> max_datetime"
  shows "\<exists>r. get_price_forecast hours location price_in clock stamp co2_src = Inr r
     \<and> length (fr_forecast r) = nat hours
     \<and> (hours = 0 \<longrightarrow> fr_forecast r = [])
     \<and> (\<forall>i. 0 \<le> i \<and> i < hours \<longrightarrow>
           fp_price (fr_forecast r ! nat i) =
             py_round (fadd (py_or price_in (fl 0.30))
               (if i mod 4 = 0
                then fadd (fmul (of_int (i mod 12 - 6)) (fl 0.01))
                       (fmul (fsub (of_int (i mod 2)) (fl 0.5)) (fl 0.03))
                else fmul (of_int (i mod 12 - 6)) (fl 0.01))) 4
         \<and> (\<bar>py_or price_in (fl 0.30)\<bar> \<le> 1000 \<longrightarrow>
              \<bar>fp_price (fr_forecast r ! nat i) - py_or price_in (fl 0.30)\<bar> \<le> 0.09)
         \<and> fp_datetime (fr_forecast r ! nat i) = clock i + i * 3600000000
         \<and> fp_timestamp (fr_forecast r ! nat i) = stamp (clock i + i * 3600000000))
     \<and> (py_or price_in (fl 0.30) = fl 0.30 \<and> 0 < hours \<longrightarrow>
           fp_price (fr_forecast r ! 0) = fl 0.225)
     \<and> (\<forall>i. 0 \<le> i \<and> i + 1 < hours \<longrightarrow>
           fp_datetime (fr_forecast r ! nat (i + 1)) - fp_datetime (fr_forecast r ! nat i)
             = 3600000000 + (clock (i + 1) - clock i))"
proof -
  let ?p = "py_or price_in (fl 0.30)"
  let ?e = "forecast_entry_at ?p clock stamp co2_src"
  let ?r = "\<lparr>fr_forecast = map ?e [0..hours - 1], fr_hours = hours,
      fr_location = Some location\<rparr>"
  have res: "get_price_forecast hours location price_in clock stamp co2_src = Inr ?r"
    using assms(2) by (rule forecast_no_overflow)
  have nth: "fr_forecast ?r ! nat i = ?e i" if "0 \<le> i" "i < hours" for i
    using forecast_nth [OF that, of ?e] by simp
  have len: "length (fr_forecast ?r) = nat hours"
    using assms(1) by simp
  have empty: "hours = 0 \<longrightarrow> fr_forecast ?r = []"
    by simp
  have var: "variation i =
      (if i mod 4 = 0
       then fadd (fmul (of_int (i mod 12 - 6)) (fl 0.01))
              (fmul (fsub (of_int (i mod 2)) (fl 0.5)) (fl 0.03))
       else fmul (of_int (i mod 12 - 6)) (fl 0.01))" for i
    unfolding variation_def Let_def by (rule refl)
  have n: "(0.09 :: rat) = 9 / 100" by simp
  have point: "\<forall>i. 0 \<le> i \<and> i < hours \<longrightarrow>
           fp_price (fr_forecast ?r ! nat i) =
             py_round (fadd ?p
               (if i mod 4 = 0
                then fadd (fmul (of_int (i mod 12 - 6)) (fl 0.01))
                       (fmul (fsub (of_int (i mod 2)) (fl 0.5)) (fl 0.03))
                else fmul (of_int (i mod 12 - 6)) (fl 0.01))) 4
         \<and> (\<bar>?p\<bar> \<le> 1000 \<longrightarrow> \<bar>fp_price (fr_forecast ?r ! nat i) - ?p\<bar> \<le> 0.09)
         \<and> fp_datetime (fr_forecast ?r ! nat i) = clock i + i * 3600000000
         \<and> fp_timestamp (fr_forecast ?r ! nat i) = stamp (clock i + i * 3600000000)"
  proof (intro allI impI, elim conjE)
    fix i :: int
    assume i: "0 \<le> i" "i < hours"
    have a: "fp_price (fr_forecast ?r ! nat i) = py_round (fadd ?p (variation i)) 4"
      unfolding nth [OF i] by (simp add: forecast_entry_at_def)
    have b: "\<bar>?p\<bar> \<le> 1000 \<longrightarrow> \<bar>fp_price (fr_forecast ?r ! nat i) - ?p\<bar> \<le> 0.09"
      unfolding a n by (intro impI price_within)
    have c: "fp_datetime (fr_forecast ?r ! nat i) = clock i + i * 3600000000"
      unfolding nth [OF i] by (simp add: forecast_entry_at_def forecast_time_def)
    have d: "fp_timestamp (fr_forecast ?r ! nat i) = stamp (clock i + i * 3600000000)"
      unfolding nth [OF i] by (simp add: forecast_entry_at_def forecast_time_def)
    show "fp_price (fr_forecast ?r ! nat i) =
             py_round (fadd ?p
               (if i mod 4 = 0
                then fadd (fmul (of_int (i mod 12 - 6)) (fl 0.01))
                       (fmul (fsub (of_int (i mod 2)) (fl 0.5)) (fl 0.03))
                else fmul (of_int (i mod 12 - 6)) (fl 0.01))) 4
         \<and> (\<bar>?p\<bar> \<le> 1000 \<longrightarrow> \<bar>fp_price (fr_forecast ?r ! nat i) - ?p\<bar> \<le> 0.09)
         \<and> fp_datetime (fr_forecast ?r ! nat i) = clock i + i * 3600000000
         \<and> fp_timestamp (fr_forecast ?r ! nat i) = stamp (clock i + i * 3600000000)"
      using a [unfolded var] b c d by (intro conjI)
  qed
  have first: "?p = fl 0.30 \<and> 0 < hours \<longrightarrow> fp_price (fr_forecast ?r ! 0) = fl 0.225"
  proof (intro impI, elim conjE)
    assume p: "?p = fl 0.30" and h: "0 < hours"
    have v: "py_round (fadd (fl 0.30) (variation 0)) 4 = fl 0.225" by code_simp
    have "fr_forecast ?r ! nat 0 = ?e 0"
      using h by (intro nth) simp_all
    then have "fp_price (fr_forecast ?r ! 0) = py_round (fadd ?p (variation 0)) 4"
      by (simp add: forecast_entry_at_def)
    then show "fp_price (fr_forecast ?r ! 0) = fl 0.225"
      unfolding p v .
  qed
  have step: "\<forall>i. 0 \<le> i \<and> i + 1 < hours \<longrightarrow>
      fp_datetime (fr_forecast ?r ! nat (i + 1)) - fp_datetime (fr_forecast ?r ! nat i)
        = 3600000000 + (clock (i + 1) - clock i)"
  proof (intro allI impI, elim conjE)
    fix i :: int
    assume i: "0 \<le> i" "i + 1 < hours"
    have x: "fr_forecast ?r ! nat i = ?e i"
      using i by (intro nth) simp_all
    have y: "fr_forecast ?r ! nat (i + 1) = ?e (i + 1)"
      using i by (intro nth) simp_all
    show "fp_datetime (fr_forecast ?r ! nat (i + 1)) - fp_datetime (fr_forecast ?r ! nat i)
        = 3600000000 + (clock (i + 1) - clock i)"
      unfolding x y by (simp add: forecast_entry_at_def forecast_time_def algebra_simps)
  qed
  show ?thesis
    using res len empty point first step by blast
qed


theorem forecast_synthesizer_witness:
  "\<exists>r. get_price_forecast 3 ''Berlin'' (Some (fl 0.30)) (\<lambda>i. 1700000000000000 + 250000 * i)
         (\<lambda>t. t div 1000) (\<lambda>i. None) = Inr r
     \<and> length (fr_forecast r) = 3
     \<and> fp_price (fr_forecast r ! 0) = fl 0.225
     \<and> \<bar>fp_price (fr_forecast r ! 2) - fl 0.30\<bar> \<le> 0.09
     \<and> fp_datetime (fr_forecast r ! 1) - fp_datetime (fr_forecast r ! 0) = 3600250000
     \<and> fp_timestamp (fr_forecast r ! 2) = 1700007200500"
proof -
  let ?clock = "\<lambda>i :: int. 1700000000000000 + 250000 * i :: int"
  let ?stamp = "\<lambda>t :: int. t div 1000"
  have h: "(0 :: int) \<le> 3" by simp
  have o: "\<forall>i. 0 \<le> i \<and> i < 3 \<longrightarrow> forecast_time ?clock i \<le> max_datetime"
    by (simp add: forecast_time_def max_datetime_def)
  have p: "py_or (Some (fl 0.30)) (fl 0.30) = fl 0.30" by code_simp
  have q: "\<bar>fl 0.30\<bar> \<le> 1000" by code_simp
  obtain r where res: "get_price_forecast 3 ''Berlin'' (Some (fl 0.30)) ?clock ?stamp
        (\<lambda>i. None) = Inr r"
    and len: "length (fr_forecast r) = nat 3"
    and point: "\<forall>i. 0 \<le> i \<and> i < 3 \<longrightarrow>
           fp_price (fr_forecast r ! nat i) =
             py_round (fadd (py_or (Some (fl 0.30)) (fl 0.30))
               (if i mod 4 = 0
                then fadd (fmul (of_int (i mod 12 - 6)) (fl 0.01))
                       (fmul (fsub (of_int (i mod 2)) (fl 0.5)) (fl 0.03))
                else fmul (of_int (i mod 12 - 6)) (fl 0.01))) 4
         \<and> (\<bar>py_or (Some (fl 0.30)) (fl 0.30)\<bar> \<le> 1000 \<longrightarrow>
              \<bar>fp_price (fr_forecast r ! nat i) - py_or (Some (fl 0.30)) (fl 0.30)\<bar> \<le> 0.09)
         \<and> fp_datetime (fr_forecast r ! nat i) = ?clock i + i * 3600000000
         \<and> fp_timestamp (fr_forecast r ! nat i) = ?stamp (?clock i + i * 3600000000)"
    and first: "py_or (Some (fl 0.30)) (fl 0.30) = fl 0.30 \<and> (0 :: int) < 3 \<longrightarrow>
           fp_price (fr_forecast r ! 0) = fl 0.225"
    and step: "\<forall>i. 0 \<le> i \<and> i + 1 < 3 \<longrightarrow>
           fp_datetime (fr_forecast r ! nat (i + 1)) - fp_datetime (fr_forecast r ! nat i)
             = 3600000000 + (?clock (i + 1) - ?clock i)"
    using forecast_synthesizer [OF h o, of "''Berlin''" "Some (fl 0.30)" ?stamp "\<lambda>i. None"]
    by blast
  have "length (fr_forecast r) = 3" using len by simp
  moreover have "fp_price (fr_forecast r ! 0) = fl 0.225" using first p by simp
  moreover have "\<bar>fp_price (fr_forecast r ! 2) - fl 0.30\<bar> \<le> 0.09"
    using point [rule_format, of 2, THEN conjunct2, THEN conjunct1] q unfolding p by simp
  moreover have "fp_datetime (fr_forecast r ! 1) - fp_datetime (fr_forecast r ! 0) = 3600250000"
    using step [rule_format, of 0] by simp
  moreover have "fp_timestamp (fr_forecast r ! 2) = 1700007200500"
    using point [rule_format, of 2, THEN conjunct2, THEN conjunct2, THEN conjunct2] by simp
  ultimately show ?thesis using res by blast
qed


section \<open>The decision threshold in binary64\<close>

text \<open>
  Two evaluations where binary64 decides differently from exact arithmetic. With a
  null price (0.30) and a cheapest price of 0.275 the savings of the 2 kWh washing
  machine are 0.04999999999999993, below 0.05, and the endpoint answers \<open>now\<close>. At the
  prices 0.1 and 0.075 the savings are 0.05000000000000002, above 0.05, and the washing
  handler advises to wait.
\<close>

lemma recommendation_below_threshold:
  "get_device_recommendation 1 seed_devices
       [\<lparr>fe_hour = Some ''03:00'', fe_price = Some (fl 0.275), fe_co2 = None\<rparr>] None
     = Inr \<lparr>r_device = ''Waschmaschine'', r_recommendation = ''now'', r_best_time = ''03:00'',
            r_cost_now = fl 0.6, r_cost_best = fl 0.55, r_potential_savings = fl 0.05\<rparr>"
  by code_simp

lemma device_advice_above_threshold:
  "get_washing_advice (assistant_context (Some (fl 0.1)) (Some 300) []
       [\<lparr>fe_hour = Some ''03:00'', fe_price = Some (fl 0.075), fe_co2 = None\<rparr>])
     = Inr (Device_wait ''Waschmaschine'' ''03:00''
         (fsub (fmul (fl 0.1) 2) (fmul (fl 0.075) 2)) (fl 0.2) (fl 0.15))
   \<and> fl 0.05 < fsub (fmul (fl 0.1) 2) (fmul (fl 0.075) 2)"
  by code_simp

end
